theory Spec2Isabelle
  imports Complex_Main "HOL-Library.Word"
begin

unbundle bit_operations_syntax

section \<open>JavaScript values and primitives used by the converter\<close>

text \<open>
  Numbers are modelled as rationals; a value of type \<open>rat option\<close> is the result of
  \<^verbatim>\<open>Number(...)\<close>, where \<open>None\<close> stands for every non-finite result (NaN and the
  infinities): each such result in the program is tested with \<^verbatim>\<open>Number.isFinite\<close>
  before it is used. The rounding of IEEE doubles is not modelled.
\<close>

type_synonym byte = "8 word"

definition is_space :: "char \<Rightarrow> bool" where
  "is_space c = (c \<in> set [CHR '' '', CHR 0x09, CHR 0x0A, CHR 0x0B, CHR 0x0C, CHR 0x0D])"

definition trim :: "string \<Rightarrow> string" where
  "trim s = rev (dropWhile is_space (rev (dropWhile is_space s)))"

definition is_digit :: "char \<Rightarrow> bool" where
  "is_digit c = (48 \<le> (of_char c :: nat) \<and> (of_char c :: nat) \<le> 57)"

definition digit_val :: "char \<Rightarrow> int" where
  "digit_val c = of_char c - 48"

definition digits_val :: "string \<Rightarrow> int" where
  "digits_val ds = foldl (\<lambda>acc c. 10 * acc + digit_val c) 0 ds"

definition hex_val :: "char \<Rightarrow> int option" where
  "hex_val c =
     (if is_digit c then Some (digit_val c)
      else if 97 \<le> (of_char c :: nat) \<and> (of_char c :: nat) \<le> 102 then Some (of_char c - 87)
      else if 65 \<le> (of_char c :: nat) \<and> (of_char c :: nat) \<le> 70 then Some (of_char c - 55)
      else None)"

fun radix_val :: "int \<Rightarrow> int \<Rightarrow> string \<Rightarrow> int option" where
  "radix_val b acc [] = Some acc"
| "radix_val b acc (c # cs) =
     (case hex_val c of
        None \<Rightarrow> None
      | Some d \<Rightarrow> if d < b then radix_val b (b * acc + d) cs else None)"

text \<open>The exponent part of a decimal literal: \<^verbatim>\<open>e\<close> or \<^verbatim>\<open>E\<close>, an optional sign, digits.\<close>

definition exponent_val :: "string \<Rightarrow> int option" where
  "exponent_val s =
     (case s of
        [] \<Rightarrow> Some 0
      | c # r \<Rightarrow>
          if c = CHR ''e'' \<or> c = CHR ''E'' then
            (let (neg, ds) = (case r of
                                [] \<Rightarrow> (False, [])
                              | d # r' \<Rightarrow> if d = CHR ''-'' then (True, r')
                                          else if d = CHR ''+'' then (False, r')
                                          else (False, r))
             in if ds \<noteq> [] \<and> list_all is_digit ds
                then Some (if neg then - digits_val ds else digits_val ds)
                else None)
          else None)"

definition pow10 :: "int \<Rightarrow> rat" where
  "pow10 e = (if 0 \<le> e then 10 ^ nat e else 1 / 10 ^ nat (- e))"

text \<open>An unsigned decimal literal: digits, an optional fraction, an optional exponent.\<close>

definition unsigned_decimal :: "string \<Rightarrow> rat option" where
  "unsigned_decimal s =
     (let ip = takeWhile is_digit s; r1 = dropWhile is_digit s;
          (fp, r2) = (case r1 of
                        [] \<Rightarrow> ([], [])
                      | c # r \<Rightarrow> if c = CHR ''.''
                                 then (takeWhile is_digit r, dropWhile is_digit r)
                                 else ([], r1))
      in if ip = [] \<and> fp = [] then None
         else (case exponent_val r2 of
                 None \<Rightarrow> None
               | Some e \<Rightarrow>
                   Some ((of_int (digits_val ip) + of_int (digits_val fp) / 10 ^ length fp)
                         * pow10 e)))"

text \<open>
  \<^verbatim>\<open>Number(s)\<close> on a string: white space is trimmed, the empty string is 0, then a
  signed decimal literal or an unsigned literal in base 16, 8 or 2. Everything else,
  \<^verbatim>\<open>Infinity\<close> included, is not finite.
\<close>

definition Number_str :: "string \<Rightarrow> rat option" where
  "Number_str s0 =
     (let s = trim s0 in
      case s of
        [] \<Rightarrow> Some 0
      | c # r \<Rightarrow>
          if c = CHR ''-'' then map_option uminus (unsigned_decimal r)
          else if c = CHR ''+'' then unsigned_decimal r
          else if c = CHR ''0'' \<and> r \<noteq> [] \<and> hd r \<in> set ''xX'' \<and> tl r \<noteq> []
            then map_option of_int (radix_val 16 0 (tl r))
          else if c = CHR ''0'' \<and> r \<noteq> [] \<and> hd r \<in> set ''oO'' \<and> tl r \<noteq> []
            then map_option of_int (radix_val 8 0 (tl r))
          else if c = CHR ''0'' \<and> r \<noteq> [] \<and> hd r \<in> set ''bB'' \<and> tl r \<noteq> []
            then map_option of_int (radix_val 2 0 (tl r))
          else unsigned_decimal s)"

text \<open>A JSON field as the program reads it: a number or a string; an absent field is \<open>None\<close>.\<close>

datatype jsval = JNum rat | JStr string

fun truthy :: "jsval option \<Rightarrow> bool" where
  "truthy None = False"
| "truthy (Some (JNum r)) = (r \<noteq> 0)"
| "truthy (Some (JStr s)) = (s \<noteq> [])"

text \<open>\<^verbatim>\<open>a || b\<close>\<close>

definition js_or :: "jsval option \<Rightarrow> jsval option \<Rightarrow> jsval option" where
  "js_or a b = (if truthy a then a else b)"

fun Number_js :: "jsval option \<Rightarrow> rat option" where
  "Number_js None = None"
| "Number_js (Some (JNum r)) = Some r"
| "Number_js (Some (JStr s)) = Number_str s"

text \<open>\<^verbatim>\<open>a % b\<close> on finite numbers with \<open>b \<noteq> 0\<close>: the remainder has the sign of \<open>a\<close>.\<close>

definition js_trunc :: "rat \<Rightarrow> int" where
  "js_trunc x = (if 0 \<le> x then \<lfloor>x\<rfloor> else \<lceil>x\<rceil>)"

definition js_rem :: "rat \<Rightarrow> rat \<Rightarrow> rat" where
  "js_rem a b = a - b * of_int (js_trunc (a / b))"

text \<open>\<^verbatim>\<open>Math.round\<close>: the nearest integer, halves towards plus infinity.\<close>

definition Math_round :: "rat \<Rightarrow> int" where
  "Math_round x = \<lfloor>x + 1 / 2\<rfloor>"

text \<open>\<^verbatim>\<open>String(n)\<close> on an integer.\<close>

fun String_nat :: "nat \<Rightarrow> string" where
  "String_nat n =
     (if n < 10 then [''0123456789'' ! n]
      else String_nat (n div 10) @ [''0123456789'' ! (n mod 10)])"

definition String_int :: "int \<Rightarrow> string" where
  "String_int i = (if i < 0 then CHR ''-'' # String_nat (nat (- i)) else String_nat (nat i))"

section \<open>The environment: external tools and the file system\<close>

text \<open>
  \<^verbatim>\<open>detectTools\<close>: each tool is the path found by \<^verbatim>\<open>which\<close> (a non-empty string) or
  absent; \<^verbatim>\<open>found.imagemagick = found.magick || found.convert || null\<close>.
\<close>

record tools =
  exiftool :: "string option"
  ffmpeg :: "string option"
  ffprobe :: "string option"
  magick :: "string option"
  convert :: "string option"
  heif_convert :: "string option"

definition imagemagick :: "tools \<Rightarrow> string option" where
  "imagemagick t = (case magick t of Some m \<Rightarrow> Some m | None \<Rightarrow> convert t)"

text \<open>
  What \<^verbatim>\<open>run\<close> resolves to: the exit code (\<^verbatim>\<open>null\<close>, here \<open>None\<close>, when the child
  was killed by a signal; \<open>-1\<close> when it could not be spawned) and the two captured
  streams. \<^verbatim>\<open>run\<close> resolves on the \<^verbatim>\<open>close\<close> and on the \<^verbatim>\<open>error\<close> event and never
  rejects, so the \<^verbatim>\<open>catch\<close> clauses around it in \<^verbatim>\<open>convertStill\<close> have no branch here.
\<close>

record run_result =
  code :: "int option"
  stdout :: string
  stderr :: string

text \<open>A parsed ffprobe description, with the fields the program reads.\<close>

record ffstream =
  codec_type :: "string option"
  attached_pic :: "jsval option"
  width :: "jsval option"
  height :: "jsval option"
  nb_frames :: "jsval option"
  s_duration :: "jsval option"
  tag_rotate :: "jsval option"
  side_data_types :: "string option list"

record ffformat =
  format_name :: "string option"
  nb_streams :: "jsval option"
  f_duration :: "jsval option"

record ffjson =
  format :: "ffformat option"
  streams :: "ffstream list"

text \<open>
  The outside world of one file's processing. \<open>run\<close> answers an invocation by its
  command and arguments; \<open>exists_after\<close> says whether a path exists right after that
  invocation; \<open>JSON_parse\<close> is \<^verbatim>\<open>JSON.parse\<close> seen through the fields above, \<open>None\<close> when
  it throws or yields a falsy value; \<open>readFile\<close> is \<open>None\<close> when reading throws;
  \<open>writeFile\<close> is \<open>False\<close> when writing throws.
\<close>

record env =
  run :: "string \<Rightarrow> string list \<Rightarrow> run_result"
  exists_after :: "string \<Rightarrow> string list \<Rightarrow> string \<Rightarrow> bool"
  JSON_parse :: "string \<Rightarrow> ffjson option"
  readFile :: "string \<Rightarrow> byte list option"
  writeFile :: "string \<Rightarrow> byte list \<Rightarrow> bool"

section \<open>Orientation helpers\<close>

text \<open>\<^verbatim>\<open>((rot % 360) + 360) % 360\<close>\<close>

definition norm360 :: "rat \<Rightarrow> rat" where
  "norm360 rot = js_rem (js_rem rot 360 + 360) 360"

definition ffprobe_orientation :: "env \<Rightarrow> string \<Rightarrow> string \<Rightarrow> rat option" where
  "ffprobe_orientation e fp file =
     (let probe = run e fp [''-v'', ''error'', ''-print_format'', ''json'', ''-show_streams'',
                            ''-select_streams'', ''v:0'', file]
      in if code probe = Some 0 then
           (case JSON_parse e (if stdout probe = [] then ''{}'' else stdout probe) of
              None \<Rightarrow> None
            | Some json \<Rightarrow>
                (let rot = Number_js (js_or (case streams json of [] \<Rightarrow> None | s # _ \<Rightarrow> tag_rotate s)
                                            (Some (JNum 0)))
                 in case rot of
                      None \<Rightarrow> None
                    | Some rot \<Rightarrow>
                        (let r = norm360 rot in
                         if r = 0 then Some 1 else if r = 90 then Some 6
                         else if r = 180 then Some 3 else if r = 270 then Some 8 else None)))
         else None)"

text \<open>
  \<^verbatim>\<open>getExifOrientationCode\<close>: the value returned is a JavaScript number, here a
  rational.
\<close>

definition getExifOrientationCode :: "env \<Rightarrow> tools \<Rightarrow> string \<Rightarrow> rat" where
  "getExifOrientationCode e t file =
     (let from_exif =
            (case exiftool t of
               None \<Rightarrow> None
             | Some et \<Rightarrow>
                 (let res = run e et [''-s'', ''-s'', ''-s'', ''-Orientation#'', file]
                  in if code res = Some 0 then
                       (case Number_str (trim (stdout res)) of
                          None \<Rightarrow> None
                        | Some n \<Rightarrow> if 1 \<le> n \<and> n \<le> 8 then Some n else None)
                     else None))
      in case from_exif of
           Some n \<Rightarrow> n
         | None \<Rightarrow>
             (case ffprobe t of
                None \<Rightarrow> 1
              | Some fp \<Rightarrow> (case ffprobe_orientation e fp file of Some c \<Rightarrow> c | None \<Rightarrow> 1)))"

definition imagemagickOpsForExif :: "rat \<Rightarrow> string list" where
  "imagemagickOpsForExif c =
     (if c = 2 then [''-flop'']
      else if c = 3 then [''-rotate'', ''180'']
      else if c = 4 then [''-flip'']
      else if c = 5 then [''-transpose'']
      else if c = 6 then [''-rotate'', ''90'']
      else if c = 7 then [''-transverse'']
      else if c = 8 then [''-rotate'', ''270'']
      else [])"

definition ffmpegFilterForExif :: "rat \<Rightarrow> string option" where
  "ffmpegFilterForExif c =
     (if c = 2 then Some ''hflip''
      else if c = 3 then Some ''hflip,vflip''
      else if c = 4 then Some ''vflip''
      else if c = 5 then Some ''transpose=1,hflip''
      else if c = 6 then Some ''transpose=1''
      else if c = 7 then Some ''transpose=2,hflip''
      else if c = 8 then Some ''transpose=2''
      else None)"

section \<open>Still image conversion\<close>

text \<open>
  A failure line \<^verbatim>\<open>`${label} exit ${res.code}: ${res.stderr?.trim() || res.stdout?.trim()}`\<close>
  is kept as its three interpolated parts.
\<close>

datatype diag = ExitDiag string "int option" string

definition diag_text :: "run_result \<Rightarrow> string" where
  "diag_text res = (if trim (stderr res) \<noteq> [] then trim (stderr res) else trim (stdout res))"

datatype still_result = StillOk string string | StillFailed "diag list"

type_synonym invocation = "string \<times> string list"

text \<open>The argument list of the ImageMagick invocation, lines 186 to 190 of the source.\<close>

definition imagemagick_args :: "tools \<Rightarrow> string \<Rightarrow> string \<Rightarrow> int \<Rightarrow> rat \<Rightarrow> string list" where
  "imagemagick_args t srcFile dstFile quality exifCode =
     (let ops = imagemagickOpsForExif 3;
          usingMagick = (magick t \<noteq> None)
      in if usingMagick
         then [''convert'', srcFile] @ ops @ [''-quality'', String_int quality, dstFile]
         else [srcFile] @ ops @ [''-quality'', String_int quality, dstFile])"

text \<open>The argument list of the ffmpeg invocation, lines 209 to 213 of the source.\<close>

definition ffmpeg_qscale :: int where
  "ffmpeg_qscale = min 31 (max 2 (Math_round (31 - (min 100 (max 1 95) / 100) * 29)))"

definition ffmpeg_frame_args :: "string \<Rightarrow> string \<Rightarrow> int \<Rightarrow> rat \<Rightarrow> string list" where
  "ffmpeg_frame_args srcFile dstFile quality exifCode =
     (let vf = ffmpegFilterForExif exifCode;
          qscale = ffmpeg_qscale;
          args = [''-hide_banner'', ''-y'', ''-noautorotate'', ''-i'', srcFile, ''-frames:v'', ''1''];
          args = (case vf of Some f \<Rightarrow> args @ [''-vf'', f] | None \<Rightarrow> args)
      in args @ [''-qscale:v'', String_int qscale, dstFile])"

text \<open>
  One strategy of the chain: the invocation, then success only if the exit code is 0
  and the destination exists afterwards; otherwise the failure line is pushed.
\<close>

definition attempt :: "env \<Rightarrow> string \<Rightarrow> string \<Rightarrow> string list \<Rightarrow> string \<Rightarrow> string \<Rightarrow> diag + still_result" where
  "attempt e label cmd args dstFile method =
     (let res = run e cmd args
      in if code res = Some 0 \<and> exists_after e cmd args dstFile
         then Inr (StillOk dstFile method)
         else Inl (ExitDiag label (code res) (diag_text res)))"

text \<open>
  \<^verbatim>\<open>convertStill\<close>, returning with its result the invocations it made, in order.
\<close>

definition convertStill ::
  "env \<Rightarrow> tools \<Rightarrow> string \<Rightarrow> string \<Rightarrow> int \<Rightarrow> rat \<Rightarrow> invocation list \<times> still_result" where
  "convertStill e t srcFile dstFile quality exifCode =
     (let failures = []; calls = [];
          s1 = (case imagemagick t of
                  None \<Rightarrow> Inl (calls, failures)
                | Some im \<Rightarrow>
                    (let args = imagemagick_args t srcFile dstFile quality exifCode
                     in case attempt e ''ImageMagick'' im args dstFile ''imagemagick'' of
                          Inr ok \<Rightarrow> Inr (calls @ [(im, args)], ok)
                        | Inl d \<Rightarrow> Inl (calls @ [(im, args)], failures @ [d])))
      in case s1 of
           Inr r \<Rightarrow> r
         | Inl (calls, failures) \<Rightarrow>
      (let s2 = (case heif_convert t of
                   None \<Rightarrow> Inl (calls, failures)
                 | Some hc \<Rightarrow>
                     (let args = [srcFile, dstFile]
                      in case attempt e ''heif-convert'' hc args dstFile ''heif-convert'' of
                           Inr ok \<Rightarrow> Inr (calls @ [(hc, args)], ok)
                         | Inl d \<Rightarrow> Inl (calls @ [(hc, args)], failures @ [d])))
       in case s2 of
            Inr r \<Rightarrow> r
          | Inl (calls, failures) \<Rightarrow>
      (let s3 = (case ffmpeg t of
                   None \<Rightarrow> Inl (calls, failures)
                 | Some ff \<Rightarrow>
                     (let args = ffmpeg_frame_args srcFile dstFile quality exifCode
                      in case attempt e ''ffmpeg frame extract'' ff args dstFile ''ffmpeg-frame'' of
                           Inr ok \<Rightarrow> Inr (calls @ [(ff, args)], ok)
                         | Inl d \<Rightarrow> Inl (calls @ [(ff, args)], failures @ [d])))
       in case s3 of
            Inr r \<Rightarrow> r
          | Inl (calls, failures) \<Rightarrow> (calls, StillFailed failures))))"

text \<open>
  The chain as the specification words it: the ordered list of the strategies whose tool
  is available, each with its failure label, its method name and its invocation, and a
  driver that stops at the first success.
\<close>

definition succeeded :: "env \<Rightarrow> string \<Rightarrow> invocation \<Rightarrow> bool" where
  "succeeded e dstFile c =
     (code (run e (fst c) (snd c)) = Some 0 \<and> exists_after e (fst c) (snd c) dstFile)"

definition strategies ::
  "tools \<Rightarrow> string \<Rightarrow> string \<Rightarrow> int \<Rightarrow> rat \<Rightarrow> (string \<times> string \<times> invocation) list" where
  "strategies t srcFile dstFile quality exifCode =
     (case imagemagick t of
        None \<Rightarrow> []
      | Some im \<Rightarrow> [(''ImageMagick'', ''imagemagick'',
                     (im, imagemagick_args t srcFile dstFile quality exifCode))])
     @ (case heif_convert t of
          None \<Rightarrow> []
        | Some hc \<Rightarrow> [(''heif-convert'', ''heif-convert'', (hc, [srcFile, dstFile]))])
     @ (case ffmpeg t of
          None \<Rightarrow> []
        | Some ff \<Rightarrow> [(''ffmpeg frame extract'', ''ffmpeg-frame'',
                       (ff, ffmpeg_frame_args srcFile dstFile quality exifCode))])"

definition strategy_diag :: "env \<Rightarrow> string \<times> string \<times> invocation \<Rightarrow> diag" where
  "strategy_diag e s =
     (case s of (label, method, c) \<Rightarrow>
        ExitDiag label (code (run e (fst c) (snd c))) (diag_text (run e (fst c) (snd c))))"

fun chain ::
  "env \<Rightarrow> string \<Rightarrow> (string \<times> string \<times> invocation) list \<Rightarrow> invocation list \<Rightarrow> diag list
     \<Rightarrow> invocation list \<times> still_result" where
  "chain e dstFile [] calls failures = (calls, StillFailed failures)"
| "chain e dstFile ((label, method, c) # ss) calls failures =
     (if succeeded e dstFile c then (calls @ [c], StillOk dstFile method)
      else chain e dstFile ss (calls @ [c]) (failures @ [strategy_diag e (label, method, c)]))"

text \<open>
  The two readings the specification names. The metadata reader's numeric orientation
  tag: what \<^verbatim>\<open>Number\<close> makes of the reader's output when the reader is available and
  exits 0. The stream rotation tag: what \<^verbatim>\<open>Number\<close> makes of the first stream's
  \<^verbatim>\<open>rotate\<close> tag (0 when there is none) when the prober is available, exits 0 and
  prints a description that parses.
\<close>

definition exif_reading :: "env \<Rightarrow> tools \<Rightarrow> string \<Rightarrow> rat option" where
  "exif_reading e t file =
     (case exiftool t of
        None \<Rightarrow> None
      | Some et \<Rightarrow>
          (let res = run e et [''-s'', ''-s'', ''-s'', ''-Orientation#'', file]
           in if code res = Some 0 then Number_str (trim (stdout res)) else None))"

definition stream_rotation :: "env \<Rightarrow> tools \<Rightarrow> string \<Rightarrow> rat option" where
  "stream_rotation e t file =
     (case ffprobe t of
        None \<Rightarrow> None
      | Some fp \<Rightarrow>
          (let probe = run e fp [''-v'', ''error'', ''-print_format'', ''json'',
                                 ''-show_streams'', ''-select_streams'', ''v:0'', file]
           in if code probe = Some 0 then
                (case JSON_parse e (if stdout probe = [] then ''{}'' else stdout probe) of
                   None \<Rightarrow> None
                 | Some json \<Rightarrow>
                     Number_js (js_or (case streams json of [] \<Rightarrow> None | s # _ \<Rightarrow> tag_rotate s)
                                      (Some (JNum 0))))
              else None))"

definition degrees_to_code :: "rat \<Rightarrow> rat" where
  "degrees_to_code r =
     (if r = 0 then 1 else if r = 90 then 6 else if r = 180 then 3 else if r = 270 then 8
      else 1)"

section \<open>Embedded video detection: the container scanner\<close>

text \<open>\<^verbatim>\<open>Buffer.from(ascii, 'ascii')\<close>: one byte for each character.\<close>

definition ascii_bytes :: "string \<Rightarrow> byte list" where
  "ascii_bytes s = map of_char s"

text \<open>Whether the needle stands in the buffer at offset \<open>j\<close>.\<close>

definition occurs_at :: "byte list \<Rightarrow> byte list \<Rightarrow> nat \<Rightarrow> bool" where
  "occurs_at buf needle j = (take (length needle) (drop j buf) = needle)"

text \<open>
  \<^verbatim>\<open>buf.indexOf(needle, i)\<close> for a non-empty needle: the first offset from \<open>i\<close> on where
  the needle stands, \<open>None\<close> for \<open>-1\<close>.
\<close>

definition indexOf :: "byte list \<Rightarrow> byte list \<Rightarrow> nat \<Rightarrow> nat option" where
  "indexOf buf needle i =
     find (occurs_at buf needle) [i ..< Suc (length buf) - length needle]"

function bytesIndexAll_from :: "byte list \<Rightarrow> byte list \<Rightarrow> nat \<Rightarrow> nat list" where
  "bytesIndexAll_from buf needle i =
     (case indexOf buf needle i of
        None \<Rightarrow> []
      | Some j \<Rightarrow> j # bytesIndexAll_from buf needle (j + 1))"
  by pat_completeness auto
termination
proof (relation "measure (\<lambda>(buf, needle, i). Suc (length buf) - i)")
  show "wf (measure (\<lambda>(buf, needle, i). Suc (length buf) - i))"
    by simp
next
  fix buf needle :: "byte list" and i j :: nat
  assume "indexOf buf needle i = Some j"
  then have "j \<in> set [i ..< Suc (length buf) - length needle]"
    unfolding indexOf_def by (auto simp: find_Some_iff)
  then have "i \<le> j" "j < Suc (length buf)"
    by auto
  then show "((buf, needle, j + 1), (buf, needle, i))
      \<in> measure (\<lambda>(buf, needle, i). Suc (length buf) - i)"
    by simp
qed

declare bytesIndexAll_from.simps [simp del]

definition bytesIndexAll :: "byte list \<Rightarrow> string \<Rightarrow> nat list" where
  "bytesIndexAll buf ascii = bytesIndexAll_from buf (ascii_bytes ascii) 0"

text \<open>
  \<^verbatim>\<open>readAscii\<close>: \<^verbatim>\<open>buf.toString('ascii', off, off + len)\<close> clears the highest bit of each
  byte before decoding it.
\<close>

definition readAscii :: "byte list \<Rightarrow> nat \<Rightarrow> nat \<Rightarrow> string option" where
  "readAscii buf off len =
     (if off + len > length buf then None
      else Some (map (\<lambda>b. char_of (unat (b AND 0x7F))) (take len (drop off buf))))"

definition HEIF_LIKE_BRANDS :: "string list" where
  "HEIF_LIKE_BRANDS = [''heic'', ''heix'', ''hevc'', ''hevx'', ''heim'', ''heis'', ''hevm'',
                       ''hevs'', ''mif1'', ''msf1'', ''avif'', ''avis'']"

record candidate =
  start :: nat
  ftypIndex :: nat
  major :: "string option"

text \<open>\<^verbatim>\<open>major && HEIF_LIKE_BRANDS.has(major)\<close> for the marker at index \<open>i\<close>.\<close>

definition heif_brand :: "byte list \<Rightarrow> nat \<Rightarrow> bool" where
  "heif_brand buf i =
     (case readAscii buf (i + 4) 4 of
        None \<Rightarrow> False
      | Some m \<Rightarrow> m \<noteq> [] \<and> m \<in> set HEIF_LIKE_BRANDS)"

text \<open>The loop of lines 235 to 239 over the marker indices.\<close>

fun collect_candidates :: "byte list \<Rightarrow> nat list \<Rightarrow> candidate list" where
  "collect_candidates buf [] = []"
| "collect_candidates buf (i # idxs) =
     (if int i - 4 < 0 then collect_candidates buf idxs
      else if int i - 4 = 0 then collect_candidates buf idxs
      else if heif_brand buf i then collect_candidates buf idxs
      else \<lparr>start = i - 4, ftypIndex = i, major = readAscii buf (i + 4) 4\<rparr>
             # collect_candidates buf idxs)"

text \<open>
  Lines 231 to 240: the candidates, sorted by \<^verbatim>\<open>(a, b) => b.start - a.start\<close> (a stable
  sort, here by the key \<open>- start\<close>).
\<close>

definition scan_candidates :: "byte list \<Rightarrow> candidate list" where
  "scan_candidates buf =
     sort_key (\<lambda>c. - int (start c)) (collect_candidates buf (bytesIndexAll buf ''ftyp''))"


section \<open>Embedded video detection: the candidate prober\<close>

definition to_lower :: "char \<Rightarrow> char" where
  "to_lower c =
     (if 65 \<le> (of_char c :: nat) \<and> (of_char c :: nat) \<le> 90
      then char_of ((of_char c :: nat) + 32) else c)"

definition toLowerCase :: "string \<Rightarrow> string" where
  "toLowerCase s = map to_lower s"

text \<open>A regular expression that is a plain word matches where the word is a substring.\<close>

fun contains :: "string \<Rightarrow> string \<Rightarrow> bool" where
  "contains [] sub = (sub = [])"
| "contains (c # cs) sub = (take (length sub) (c # cs) = sub \<or> contains cs sub)"

text \<open>\<^verbatim>\<open>v > n\<close> for a JSON value \<open>v\<close> and a number \<open>n\<close>.\<close>

definition js_gt :: "jsval option \<Rightarrow> rat \<Rightarrow> bool" where
  "js_gt v n = (case Number_js v of None \<Rightarrow> False | Some r \<Rightarrow> n < r)"

text \<open>\<^verbatim>\<open>firstV?.field\<close>\<close>

definition opt_field :: "('a \<Rightarrow> jsval option) \<Rightarrow> 'a option \<Rightarrow> jsval option" where
  "opt_field f v = (case v of None \<Rightarrow> None | Some s \<Rightarrow> f s)"

definition fmtName :: "ffjson \<Rightarrow> string" where
  "fmtName json =
     toLowerCase (case format json of
                    None \<Rightarrow> []
                  | Some f \<Rightarrow> (case format_name f of None \<Rightarrow> [] | Some n \<Rightarrow> n))"

definition isContainerOk :: "ffjson \<Rightarrow> bool" where
  "isContainerOk json =
     (contains (fmtName json) ''mp4'' \<or> contains (fmtName json) ''mov''
      \<or> contains (fmtName json) ''3g2'' \<or> contains (fmtName json) ''3gp''
      \<or> contains (fmtName json) ''mj2'')"

definition firstV :: "ffjson \<Rightarrow> ffstream option" where
  "firstV json =
     find (\<lambda>s. \<not> truthy (attached_pic s))
       (filter (\<lambda>s. codec_type s = Some ''video'') (streams json))"

definition nbFrames :: "ffjson \<Rightarrow> rat option" where
  "nbFrames json =
     Number_js (js_or (js_or (opt_field nb_frames (firstV json))
                             (opt_field nb_streams (format json)))
                      (Some (JNum 0)))"

definition duration :: "ffjson \<Rightarrow> rat option" where
  "duration json =
     Number_js (js_or (js_or (opt_field f_duration (format json))
                             (opt_field s_duration (firstV json)))
                      (Some (JNum 0)))"

definition dimOk :: "ffjson \<Rightarrow> bool" where
  "dimOk json =
     (js_gt (js_or (opt_field width (firstV json)) (Some (JNum 0))) 32
      \<and> js_gt (js_or (opt_field height (firstV json)) (Some (JNum 0))) 32)"

definition motionOk :: "ffjson \<Rightarrow> bool" where
  "motionOk json =
     ((case nbFrames json of None \<Rightarrow> False | Some n \<Rightarrow> 5 < n)
      \<or> (case duration json of None \<Rightarrow> False | Some d \<Rightarrow> 3 / 10 < d))"

text \<open>The test of line 264.\<close>

definition accept_probe :: "ffjson \<Rightarrow> bool" where
  "accept_probe json =
     (isContainerOk json \<and> firstV json \<noteq> None \<and> dimOk json \<and> motionOk json)"

text \<open>Paths, POSIX style.\<close>

definition path_join :: "string \<Rightarrow> string \<Rightarrow> string" where
  "path_join a b = a @ ''/'' @ b"

definition basename :: "string \<Rightarrow> string" where
  "basename p = rev (takeWhile (\<lambda>c. c \<noteq> CHR ''/'') (rev p))"

definition slice_path :: "string \<Rightarrow> string \<Rightarrow> candidate \<Rightarrow> string" where
  "slice_path tempDir srcFile c =
     path_join tempDir (''slice_'' @ basename srcFile @ ''_'' @ String_nat (start c) @ ''.bin'')"

definition probe_args :: "string \<Rightarrow> string list" where
  "probe_args tmpPath = [''-hide_banner'', ''-v'', ''error'', ''-print_format'', ''json'',
                         ''-show_streams'', ''-show_format'', tmpPath]"

text \<open>
  One turn of the loop of lines 243 to 269: the description of the slice when the
  candidate is accepted, \<open>None\<close> when the loop goes on to the next candidate (the slice
  could not be written, the prober failed, its output did not parse, or the test of
  line 264 failed).
\<close>

definition probe_candidate ::
  "env \<Rightarrow> string \<Rightarrow> string \<Rightarrow> string \<Rightarrow> byte list \<Rightarrow> candidate \<Rightarrow> ffjson option" where
  "probe_candidate e fp srcFile tempDir buf c =
     (let tmpPath = slice_path tempDir srcFile c
      in if \<not> writeFile e tmpPath (drop (start c) buf) then None
         else (let probe = run e fp (probe_args tmpPath)
               in if code probe \<noteq> Some 0 then None
                  else (case JSON_parse e (if stdout probe = [] then ''{}'' else stdout probe) of
                          None \<Rightarrow> None
                        | Some json \<Rightarrow> if accept_probe json then Some json else None)))"

datatype detect_result = DetectOk string ffjson candidate | DetectFail string

text \<open>The loop over the candidates, with the candidates it probed, in order.\<close>

fun probe_candidates ::
  "env \<Rightarrow> string \<Rightarrow> string \<Rightarrow> string \<Rightarrow> byte list \<Rightarrow> candidate list
     \<Rightarrow> candidate list \<times> detect_result" where
  "probe_candidates e fp srcFile tempDir buf [] = ([], DetectFail ''no_valid_slice'')"
| "probe_candidates e fp srcFile tempDir buf (c # cs) =
     (case probe_candidate e fp srcFile tempDir buf c of
        Some json \<Rightarrow> ([c], DetectOk (slice_path tempDir srcFile c) json c)
      | None \<Rightarrow>
          (case probe_candidates e fp srcFile tempDir buf cs of
             (probed, r) \<Rightarrow> (c # probed, r)))"

text \<open>
  \<^verbatim>\<open>detectEmbeddedVideo\<close>; \<open>None\<close> when reading the source file throws, which nothing
  in the function catches.
\<close>

definition detectEmbeddedVideo ::
  "env \<Rightarrow> tools \<Rightarrow> string \<Rightarrow> string \<Rightarrow> detect_result option" where
  "detectEmbeddedVideo e t srcFile tempDir =
     (case ffprobe t of
        None \<Rightarrow> Some (DetectFail ''ffprobe_missing'')
      | Some fp \<Rightarrow>
          (case readFile e srcFile of
             None \<Rightarrow> None
           | Some buf \<Rightarrow>
               (let candidates = scan_candidates buf
                in if candidates = [] then Some (DetectFail ''no_candidates'')
                   else Some (snd (probe_candidates e fp srcFile tempDir buf candidates)))))"

section \<open>The MP4 normalizer\<close>

datatype norm_result = NormOk string | NormFail string "string option"

definition video_stream :: "ffjson \<Rightarrow> ffstream option" where
  "video_stream json = find (\<lambda>s. codec_type s = Some ''video'') (streams json)"

text \<open>\<^verbatim>\<open>Number(v?.tags?.rotate || 0)\<close>\<close>

definition tagRotate :: "ffjson \<Rightarrow> rat option" where
  "tagRotate json = Number_js (js_or (opt_field tag_rotate (video_stream json)) (Some (JNum 0)))"

definition rotate :: "ffjson \<Rightarrow> rat" where
  "rotate json = (case tagRotate json of None \<Rightarrow> 0 | Some r \<Rightarrow> js_rem r 360)"

definition hasDisplayMatrix :: "ffjson \<Rightarrow> bool" where
  "hasDisplayMatrix json =
     list_ex (\<lambda>sd. contains (toLowerCase (case sd of None \<Rightarrow> [] | Some s \<Rightarrow> s)) ''displaymatrix'')
       (case video_stream json of None \<Rightarrow> [] | Some v \<Rightarrow> side_data_types v)"

definition normalize_args :: "string \<Rightarrow> string \<Rightarrow> ffjson \<Rightarrow> string list \<times> string" where
  "normalize_args tmpPath outPath json =
     (let baseArgs = [''-hide_banner'', ''-y'', ''-i'', tmpPath]
      in if rotate json \<noteq> 0 \<or> hasDisplayMatrix json then
           (let r = norm360 (rotate json);
                vf = (if r = 90 then ''transpose=1'' else if r = 270 then ''transpose=2''
                      else if r = 180 then ''hflip,vflip'' else [])
            in (baseArgs @ [''-vf'', if vf = [] then ''null'' else vf, ''-c:v'', ''libx264'',
                            ''-preset'', ''veryfast'', ''-crf'', ''20'', ''-c:a'', ''aac'',
                            ''-b:a'', ''160k'', ''-movflags'', ''+faststart'', outPath],
                ''reencode''))
         else (baseArgs @ [''-c'', ''copy'', ''-movflags'', ''+faststart'', outPath], ''copy''))"

text \<open>\<^verbatim>\<open>normalizeMp4\<close>, with the invocations it made.\<close>

definition normalizeMp4 ::
  "env \<Rightarrow> tools \<Rightarrow> string \<Rightarrow> string \<Rightarrow> ffjson \<Rightarrow> invocation list \<times> norm_result" where
  "normalizeMp4 e t tmpPath outPath json =
     (case ffmpeg t of
        None \<Rightarrow> ([], NormFail ''ffmpeg_missing'' None)
      | Some ff \<Rightarrow>
          (case normalize_args tmpPath outPath json of
             (args, mth) \<Rightarrow>
               (let res = run e ff args
                in if code res \<noteq> Some 0
                   then ([(ff, args)], NormFail ''ffmpeg_failed'' (Some (stderr res)))
                   else ([(ff, args)], NormOk mth))))"



section \<open>Dimension validation and metadata copying\<close>

text \<open>\<^verbatim>\<open>s.split(/\r?\n/)\<close>; the first argument holds the current piece, reversed.\<close>

fun split_lines_acc :: "string \<Rightarrow> string \<Rightarrow> string list" where
  "split_lines_acc cur [] = [rev cur]"
| "split_lines_acc cur (c # cs) =
     (if c = CHR 0x0A
      then rev (case cur of [] \<Rightarrow> [] | d # ds \<Rightarrow> if d = CHR 0x0D then ds else cur)
             # split_lines_acc [] cs
      else split_lines_acc (c # cur) cs)"

definition split_lines :: "string \<Rightarrow> string list" where
  "split_lines s = split_lines_acc [] s"

definition getImageDimensions :: "env \<Rightarrow> tools \<Rightarrow> string \<Rightarrow> rat \<times> rat" where
  "getImageDimensions e t file =
     (case exiftool t of
        None \<Rightarrow> (0, 0)
      | Some et \<Rightarrow>
          (let res = run e et [''-s'', ''-s'', ''-s'', ''-ImageWidth'', ''-ImageHeight'', file]
           in if code res = Some 0 then
                (case map (\<lambda>s. Number_str (trim s)) (split_lines (trim (stdout res))) of
                   [Some w, Some h] \<Rightarrow> (w, h)
                 | _ \<Rightarrow> (0, 0))
              else (0, 0)))"

definition plausibleDimensions :: "rat \<Rightarrow> rat \<Rightarrow> bool" where
  "plausibleDimensions w h =
     (if w = 0 \<or> h = 0 then False
      else if w \<le> 64 \<or> h \<le> 64 then False
      else if (w = 512 \<and> h = 512) \<or> (w = 320 \<and> h = 240) then False
      else True)"

datatype meta_result = MetaOk | MetaFailed string

definition copyAllMetadata :: "env \<Rightarrow> tools \<Rightarrow> string \<Rightarrow> string \<Rightarrow> meta_result" where
  "copyAllMetadata e t src dst =
     (case exiftool t of
        None \<Rightarrow> MetaFailed ''exiftool_missing''
      | Some et \<Rightarrow>
          (let args = [''-overwrite_original'', ''-m'', ''-TagsFromFile'', src, ''-All:All'',
                       ''-icc_profile'', ''-XMP:All'', ''-GPS:All'', ''-unsafe'',
                       ''-Orientation=1'', dst];
               res = run e et args
           in if code res \<noteq> Some 0 then MetaFailed ''exiftool_failed'' else MetaOk))"

section \<open>The per-file flow\<close>

text \<open>
  The lines pushed to \<^verbatim>\<open>summary.steps\<close> and \<^verbatim>\<open>summary.errors\<close>, each kept as a
  constructor with its interpolated parts.
\<close>

datatype step =
    StepDryRunStill
  | StepStill string
  | StepMetadata bool
  | StepMotionCandidate nat string
  | StepMp4 string string
  | StepDryRunMp4
  | StepMotionNone
  | StepMotionDisabled

datatype error =
    ErrStillFailed "diag list"
  | ErrImplausible rat rat
  | ErrMp4 string

record summary =
  file_name :: string
  jpgOut :: string
  mp4Out :: string
  steps :: "step list"
  errors :: "error list"

text \<open>\<^verbatim>\<open>path.parse(file).name\<close>: the base name without its extension.\<close>

definition path_name :: "string \<Rightarrow> string" where
  "path_name p =
     (let b = basename p; ext = takeWhile (\<lambda>c. c \<noteq> CHR ''.'') (rev b)
      in if CHR ''.'' \<notin> set b \<or> length ext + 1 = length b then b
         else rev (drop (length ext + 1) (rev b)))"

definition jpgPathFor :: "string \<Rightarrow> string \<Rightarrow> string" where
  "jpgPathFor outDir base = path_join outDir (base @ ''.jpg'')"

definition mp4PathFor :: "string \<Rightarrow> string \<Rightarrow> string" where
  "mp4PathFor outDir base = path_join outDir (base @ ''.mp4'')"

text \<open>
  The body of the \<^verbatim>\<open>try\<close> block in two parts. Each returns \<open>Inr\<close> with the summary when
  it runs to its end and \<open>Inl\<close> with the summary as it stands when it throws; the
  \<^verbatim>\<open>catch\<close> clause only logs, so a throw ends the block.
\<close>

definition still_phase ::
  "env \<Rightarrow> tools \<Rightarrow> string \<Rightarrow> int \<Rightarrow> bool \<Rightarrow> summary \<Rightarrow> summary + summary" where
  "still_phase e t f quality dryRun s =
     (let exifCode = getExifOrientationCode e t f
      in if dryRun then Inr (s\<lparr>steps := steps s @ [StepDryRunStill]\<rparr>)
         else (case snd (convertStill e t f (jpgOut s) quality exifCode) of
                 StillFailed failures \<Rightarrow>
                   Inl (s\<lparr>errors := errors s @ [ErrStillFailed failures]\<rparr>)
               | StillOk p m \<Rightarrow>
                   (let s1 = s\<lparr>steps := steps s @ [StepStill m]\<rparr>;
                        dim = getImageDimensions e t (jpgOut s)
                    in if \<not> plausibleDimensions (fst dim) (snd dim)
                       then Inl (s1\<lparr>errors := errors s1 @ [ErrImplausible (fst dim) (snd dim)]\<rparr>)
                       else (let meta = copyAllMetadata e t f (jpgOut s)
                             in Inr (s1\<lparr>steps := steps s1 @ [StepMetadata (meta = MetaOk)]\<rparr>)))))"

definition motion_phase ::
  "env \<Rightarrow> tools \<Rightarrow> string \<Rightarrow> string \<Rightarrow> bool \<Rightarrow> summary \<Rightarrow> summary + summary" where
  "motion_phase e t f tempDir dryRun s =
     (case ffprobe t of
        None \<Rightarrow> Inr (s\<lparr>steps := steps s @ [StepMotionDisabled]\<rparr>)
      | Some fp \<Rightarrow>
          (case detectEmbeddedVideo e t f tempDir of
             None \<Rightarrow> Inl s
           | Some (DetectFail reason) \<Rightarrow> Inr (s\<lparr>steps := steps s @ [StepMotionNone]\<rparr>)
           | Some (DetectOk tmpPath json c) \<Rightarrow>
               (let s1 = s\<lparr>steps := steps s @
                            [StepMotionCandidate (start c)
                               (case major c of
                                  None \<Rightarrow> ''unknown''
                                | Some m \<Rightarrow> if m = [] then ''unknown'' else m)]\<rparr>
                in if \<not> dryRun then
                     (case snd (normalizeMp4 e t tmpPath (mp4Out s) json) of
                        NormFail reason err \<Rightarrow>
                          Inr (s1\<lparr>errors := errors s1 @
                                  [ErrMp4 (case err of
                                             None \<Rightarrow> reason
                                           | Some x \<Rightarrow> if x = [] then reason else x)]\<rparr>)
                      | NormOk m \<Rightarrow> Inr (s1\<lparr>steps := steps s1 @ [StepMp4 m (mp4Out s)]\<rparr>))
                   else Inr (s1\<lparr>steps := steps s1 @ [StepDryRunMp4]\<rparr>))))"

text \<open>
  \<^verbatim>\<open>processOne\<close>; \<open>tempDir\<close> is the directory \<^verbatim>\<open>fs.mkdtemp\<close> created for this file.
\<close>

definition summary0 :: "string \<Rightarrow> string \<Rightarrow> summary" where
  "summary0 f outDir =
     \<lparr>file_name = f, jpgOut = jpgPathFor outDir (path_name f),
      mp4Out = mp4PathFor outDir (path_name f), steps = [], errors = []\<rparr>"

definition processOne ::
  "env \<Rightarrow> tools \<Rightarrow> string \<Rightarrow> string \<Rightarrow> string \<Rightarrow> int \<Rightarrow> bool \<Rightarrow> summary" where
  "processOne e t f outDir tempDir quality dryRun =
     (case still_phase e t f quality dryRun (summary0 f outDir) of
        Inl s \<Rightarrow> s
      | Inr s \<Rightarrow>
          (case motion_phase e t f tempDir dryRun s of
             Inl s' \<Rightarrow> s'
           | Inr s' \<Rightarrow> s'))"

text \<open>The steps that only the motion path pushes.\<close>

fun is_motion_step :: "step \<Rightarrow> bool" where
  "is_motion_step (StepMotionCandidate n b) = True"
| "is_motion_step StepMotionNone = True"
| "is_motion_step StepMotionDisabled = True"
| "is_motion_step s = False"

fun is_mp4_error :: "error \<Rightarrow> bool" where
  "is_mp4_error (ErrMp4 m) = True"
| "is_mp4_error x = False"

text \<open>
  The two results the still path of \<^verbatim>\<open>processOne\<close> branches on: what the conversion
  chain returned for the file, and the dimensions read back from its output.
\<close>

definition still_conv :: "env \<Rightarrow> tools \<Rightarrow> string \<Rightarrow> string \<Rightarrow> int \<Rightarrow> still_result" where
  "still_conv e t f outDir quality =
     snd (convertStill e t f (jpgPathFor outDir (path_name f)) quality
            (getExifOrientationCode e t f))"

definition still_dims :: "env \<Rightarrow> tools \<Rightarrow> string \<Rightarrow> string \<Rightarrow> rat \<times> rat" where
  "still_dims e t f outDir = getImageDimensions e t (jpgPathFor outDir (path_name f))"

section \<open>Arguments, directory traversal and the main loop\<close>

record args =
  a_debug :: bool
  a_quality :: int
  a_recursive :: bool
  a_dryRun :: bool
  a_sourceDir :: string
  a_outputDir :: string

definition quality_error :: string where
  "quality_error = ''--quality must be an integer 1-100''"

definition usage_error :: string where
  "usage_error = ''Usage: node heic-to-jpg-converter.js <sourceDir> <outputDir> [--quality <1-100>] [--debug] [--recursive] [--dry-run]''"

text \<open>
  The loop of \<^verbatim>\<open>parseArgs\<close> over \<^verbatim>\<open>argv\<close> from index 2 on; \<open>Inl\<close> is the message of the
  error thrown. The value after \<^verbatim>\<open>--quality\<close> is read with \<^verbatim>\<open>Number\<close>; a missing value
  is \<^verbatim>\<open>undefined\<close>, which is not a number.
\<close>

fun parse_loop :: "string list \<Rightarrow> args \<Rightarrow> string list \<Rightarrow> string + args \<times> string list" where
  "parse_loop [] a rest = Inr (a, rest)"
| "parse_loop (v # vs) a rest =
     (if v = ''--debug'' then parse_loop vs (a\<lparr>a_debug := True\<rparr>) rest
      else if v = ''--recursive'' then parse_loop vs (a\<lparr>a_recursive := True\<rparr>) rest
      else if v = ''--dry-run'' then parse_loop vs (a\<lparr>a_dryRun := True\<rparr>) rest
      else if v = ''--quality'' then
        (case vs of
           [] \<Rightarrow> Inl quality_error
         | x # vs' \<Rightarrow>
             (case Number_str x of
                None \<Rightarrow> Inl quality_error
              | Some q \<Rightarrow>
                  if q < 1 \<or> q > 100 then Inl quality_error
                  else parse_loop vs' (a\<lparr>a_quality := Math_round q\<rparr>) rest))
      else parse_loop vs a (rest @ [v]))"

declare parse_loop.simps(2) [simp del]

text \<open>\<^verbatim>\<open>parseArgs\<close>; \<open>resolve\<close> is \<^verbatim>\<open>path.resolve\<close>.\<close>

definition parseArgs :: "(string \<Rightarrow> string) \<Rightarrow> string list \<Rightarrow> string + args" where
  "parseArgs resolve argv =
     (case parse_loop (drop 2 argv)
             \<lparr>a_debug = False, a_quality = 95, a_recursive = False, a_dryRun = False,
              a_sourceDir = [], a_outputDir = []\<rparr> [] of
        Inl msg \<Rightarrow> Inl msg
      | Inr (a, rest) \<Rightarrow>
          if length rest < 2 then Inl usage_error
          else Inr (a\<lparr>a_sourceDir := resolve (rest ! 0), a_outputDir := resolve (rest ! 1)\<rparr>))"

text \<open>A directory as \<^verbatim>\<open>fs.readdir\<close> lists it: files and directories with their entries.\<close>

datatype dirent = File string | Dir string "dirent list"

text \<open>\<^verbatim>\<open>/\.(heic|heif)$/i.test(name)\<close>\<close>

definition is_heic :: "string \<Rightarrow> bool" where
  "is_heic name =
     (5 \<le> length name \<and>
      (drop (length name - 5) (toLowerCase name) = ''.heic''
       \<or> drop (length name - 5) (toLowerCase name) = ''.heif''))"

fun iterateFiles :: "string \<Rightarrow> dirent list \<Rightarrow> bool \<Rightarrow> string list" where
  "iterateFiles dir [] recursive = []"
| "iterateFiles dir (Dir name sub # ds) recursive =
     (if recursive then iterateFiles (path_join dir name) sub recursive else [])
     @ iterateFiles dir ds recursive"
| "iterateFiles dir (File name # ds) recursive =
     (if is_heic name then [path_join dir name] else [])
     @ iterateFiles dir ds recursive"

text \<open>
  \<^verbatim>\<open>main\<close>: the summaries of the files processed, in order, or the message printed before
  \<^verbatim>\<open>process.exit(2)\<close>. \<open>tree\<close> is the listing of the source directory, \<open>None\<close> when it
  does not exist; \<open>tempDir\<close> gives the scratch directory made for each file. Line 364
  passes \<^verbatim>\<open>recursive: false\<close>.
\<close>

definition main ::
  "env \<Rightarrow> tools \<Rightarrow> (string \<Rightarrow> string) \<Rightarrow> string list \<Rightarrow> dirent list option
     \<Rightarrow> (string \<Rightarrow> string) \<Rightarrow> string + summary list" where
  "main e t resolve argv tree tempDir =
     (case parseArgs resolve argv of
        Inl msg \<Rightarrow> Inl msg
      | Inr a \<Rightarrow>
          (case tree of
             None \<Rightarrow> Inl ''Source directory does not exist''
           | Some entries \<Rightarrow>
               Inr (map (\<lambda>f. processOne e t f (a_outputDir a) (tempDir f) (a_quality a)
                              (a_dryRun a))
                        (iterateFiles (a_sourceDir a) entries False))))"

text \<open>The counts of the final report: files processed and files with an error.\<close>

definition report :: "summary list \<Rightarrow> nat \<times> nat" where
  "report ss = (length ss, length (filter (\<lambda>s. errors s \<noteq> []) ss))"

text \<open>The names of the files that stand in a directory itself.\<close>

fun direct_files :: "dirent list \<Rightarrow> string list" where
  "direct_files [] = []"
| "direct_files (File name # ds) = name # direct_files ds"
| "direct_files (Dir name sub # ds) = direct_files ds"

section \<open>Sample tools and environments\<close>

definition no_tools :: tools where
  "no_tools = \<lparr>exiftool = None, ffmpeg = None, ffprobe = None, magick = None,
                convert = None, heif_convert = None\<rparr>"

definition still_tools :: tools where
  "still_tools = no_tools\<lparr>magick := Some ''magick'', heif_convert := Some ''heif-convert'',
                          ffmpeg := Some ''ffmpeg''\<rparr>"

definition exit_with :: "int \<Rightarrow> string \<Rightarrow> string \<Rightarrow> run_result" where
  "exit_with c out err = \<lparr>code = Some c, stdout = out, stderr = err\<rparr>"

text \<open>
  ImageMagick exits 1 while a stale destination file exists; the other tools exit 0.
\<close>

definition env_stale :: env where
  "env_stale =
     \<lparr>run = (\<lambda>cmd args. if cmd = ''magick'' then exit_with 1 [] ''no decode delegate''
                         else exit_with 0 [] []),
      exists_after = (\<lambda>cmd args p. True),
      JSON_parse = (\<lambda>s. None),
      readFile = (\<lambda>p. None),
      writeFile = (\<lambda>p b. True)\<rparr>"

text \<open>Every tool exits 1.\<close>

definition env_fail :: env where
  "env_fail =
     \<lparr>run = (\<lambda>cmd args. exit_with 1 [] '' boom ''),
      exists_after = (\<lambda>cmd args p. True),
      JSON_parse = (\<lambda>s. None),
      readFile = (\<lambda>p. None),
      writeFile = (\<lambda>p b. True)\<rparr>"

definition no_stream :: ffstream where
  "no_stream = \<lparr>codec_type = None, attached_pic = None, width = None, height = None,
                 nb_frames = None, s_duration = None, tag_rotate = None,
                 side_data_types = []\<rparr>"

text \<open>
  The metadata reader prints \<open>out\<close> and exits 0; the prober exits 0 and its output parses
  to a single stream whose \<^verbatim>\<open>rotate\<close> tag is the string \<^verbatim>\<open>270\<close>.
\<close>

definition env_orient :: "string \<Rightarrow> env" where
  "env_orient out =
     \<lparr>run = (\<lambda>cmd args. if cmd = ''exiftool'' then exit_with 0 out []
                         else exit_with 0 ''{...}'' []),
      exists_after = (\<lambda>cmd args p. True),
      JSON_parse = (\<lambda>s. Some \<lparr>format = None,
                                 streams = [no_stream\<lparr>tag_rotate := Some (JStr ''270'')\<rparr>]\<rparr>),
      readFile = (\<lambda>p. None),
      writeFile = (\<lambda>p b. True)\<rparr>"

definition orient_tools :: tools where
  "orient_tools = no_tools\<lparr>exiftool := Some ''exiftool'', ffprobe := Some ''ffprobe''\<rparr>"

text \<open>
  A buffer with the primary header at offset 0 (brand \<^verbatim>\<open>heic\<close>), a second still-image
  header at offset 20 (brand \<^verbatim>\<open>mif1\<close>) and two appended payloads with the brands
  \<^verbatim>\<open>mp42\<close> (offset 36) and \<^verbatim>\<open>isom\<close> (offset 52).
\<close>

definition sample_buf :: "byte list" where
  "sample_buf =
     [0, 0, 0, 20] @ ascii_bytes ''ftypheic'' @ [0, 0, 0, 0, 1, 2, 3, 4]
     @ [0, 0, 0, 16] @ ascii_bytes ''ftypmif1'' @ [0, 0, 0, 0]
     @ [0, 0, 0, 16] @ ascii_bytes ''ftypmp42'' @ [0, 0, 0, 0]
     @ [0, 0, 0, 16] @ ascii_bytes ''ftypisom'' @ [0, 0, 0, 0]"


text \<open>
  A description as ffprobe prints it for a motion photo payload: one video stream of
  1080 by 1920 with 45 frames, 1.5 seconds long.
\<close>

definition motion_stream :: ffstream where
  "motion_stream = no_stream\<lparr>codec_type := Some ''video'', attached_pic := Some (JNum 0),
                              width := Some (JNum 1080), height := Some (JNum 1920),
                              nb_frames := Some (JStr ''45''),
                              s_duration := Some (JStr ''1.500000'')\<rparr>"

definition json_motion :: ffjson where
  "json_motion =
     \<lparr>format = Some \<lparr>format_name = Some ''mov,mp4,m4a,3gp,3g2,mj2'',
                      nb_streams = Some (JNum 1), f_duration = Some (JStr ''1.500000'')\<rparr>,
      streams = [motion_stream]\<rparr>"




definition c52 :: candidate where
  "c52 = \<lparr>start = 52, ftypIndex = 56, major = Some ''isom''\<rparr>"

definition c36 :: candidate where
  "c36 = \<lparr>start = 36, ftypIndex = 40, major = Some ''mp42''\<rparr>"



definition all_tools :: tools where
  "all_tools = \<lparr>exiftool = Some ''exiftool'', ffmpeg = Some ''ffmpeg'',
                 ffprobe = Some ''ffprobe'', magick = Some ''magick'', convert = None,
                 heif_convert = Some ''heif-convert''\<rparr>"

text \<open>
  Every still converter fails (ffmpeg fails when asked for a single frame) while the
  source holds a motion payload that the prober describes as \<open>json_motion\<close> and that
  ffmpeg can normalise.
\<close>

definition env_still_broken :: env where
  "env_still_broken =
     \<lparr>run = (\<lambda>cmd args. if cmd = ''magick'' \<or> cmd = ''heif-convert''
                            \<or> (cmd = ''ffmpeg'' \<and> ''-frames:v'' \<in> set args)
                         then exit_with 1 [] ''cannot decode''
                         else if cmd = ''exiftool'' then exit_with 0 ''4032\<newline>3024'' []
                         else exit_with 0 ''{...}'' []),
      exists_after = (\<lambda>cmd args p. True),
      JSON_parse = (\<lambda>s. Some json_motion),
      readFile = (\<lambda>p. Some sample_buf),
      writeFile = (\<lambda>p b. True)\<rparr>"

text \<open>
  ImageMagick converts, but the metadata reader reports the output as 512 by 512.
\<close>

definition env_thumbnail :: env where
  "env_thumbnail =
     \<lparr>run = (\<lambda>cmd args. if cmd = ''exiftool'' then exit_with 0 ''512\<newline>512'' []
                         else exit_with 0 ''{...}'' []),
      exists_after = (\<lambda>cmd args p. True),
      JSON_parse = (\<lambda>s. Some json_motion),
      readFile = (\<lambda>p. Some sample_buf),
      writeFile = (\<lambda>p b. True)\<rparr>"

text \<open>
  ImageMagick converts and the metadata reader reports 4032 by 3024, but exits 1 on
  every other request, the metadata copy included.
\<close>

definition env_meta_fail :: env where
  "env_meta_fail =
     \<lparr>run = (\<lambda>cmd args. if cmd = ''exiftool'' \<and> ''-ImageWidth'' \<in> set args
                         then exit_with 0 ''4032\<newline>3024'' []
                         else if cmd = ''exiftool'' then exit_with 1 [] ''write error''
                         else exit_with 0 ''{...}'' []),
      exists_after = (\<lambda>cmd args p. True),
      JSON_parse = (\<lambda>s. Some json_motion),
      readFile = (\<lambda>p. Some sample_buf),
      writeFile = (\<lambda>p b. True)\<rparr>"

definition exif_magick :: tools where
  "exif_magick = no_tools\<lparr>exiftool := Some ''exiftool'', magick := Some ''magick''\<rparr>"

text \<open>
  A source directory with two matching files, one other file and a subdirectory that
  holds a matching file.
\<close>

definition sample_tree :: "dirent list" where
  "sample_tree = [File ''a.heic'', Dir ''sub'' [File ''b.heic''], File ''notes.txt'',
                  File ''C.HEIF'']"

definition sample_argv :: "string list" where
  "sample_argv = [''node'', ''heic_to_jpg_converter.js'', ''--recursive'', ''/src'', ''/out'']"

section \<open>Evaluation lemmas\<close>

lemma String_int_95: "String_int 95 = ''95''"
  by code_simp

lemma String_int_3: "String_int 3 = ''3''"
  by code_simp

lemma ffmpeg_qscale_value: "ffmpeg_qscale = 3"
  by code_simp

lemma trim_boom: "trim '' boom '' = ''boom''"
  by code_simp

lemma trim_delegate: "trim ''no decode delegate'' = ''no decode delegate''"
  by code_simp

lemma trim_Nil: "trim [] = []"
  by (simp add: trim_def)

section \<open>The still conversion chain\<close>

lemma convertStill_chain:
  "convertStill e t s d q c = chain e d (strategies t s d q c) [] []"
  by (cases "imagemagick t"; cases "heif_convert t"; cases "ffmpeg t")
     (auto simp add: convertStill_def strategies_def attempt_def succeeded_def
        strategy_diag_def Let_def)

lemma chain_failed:
  "snd (chain e d ss calls fails) = StillFailed fs \<Longrightarrow>
     fst (chain e d ss calls fails) = calls @ map (snd \<circ> snd) ss \<and>
     (\<forall>s \<in> set ss. \<not> succeeded e d (snd (snd s))) \<and>
     fs = fails @ map (strategy_diag e) ss"
proof (induction ss arbitrary: calls fails)
  case Nil
  then show ?case by simp
next
  case (Cons a ss)
  obtain lbl mth c where a: "a = (lbl, mth, c)" by (cases a)
  have nf: "\<not> succeeded e d c" using Cons.prems a by (auto split: if_splits)
  then have "snd (chain e d ss (calls @ [c]) (fails @ [strategy_diag e a])) = StillFailed fs"
    using Cons.prems a by simp
  from Cons.IH[OF this] have
    h: "fst (chain e d ss (calls @ [c]) (fails @ [strategy_diag e a])) =
          (calls @ [c]) @ map (snd \<circ> snd) ss"
       "\<forall>s \<in> set ss. \<not> succeeded e d (snd (snd s))"
       "fs = (fails @ [strategy_diag e a]) @ map (strategy_diag e) ss"
    by blast+
  have "fst (chain e d (a # ss) calls fails) = calls @ map (snd \<circ> snd) (a # ss)"
    using h(1) nf a by simp
  moreover have "\<forall>s \<in> set (a # ss). \<not> succeeded e d (snd (snd s))"
    using h(2) nf a by simp
  moreover have "fs = fails @ map (strategy_diag e) (a # ss)"
    using h(3) by simp
  ultimately show ?case by blast
qed

lemma chain_ok:
  "snd (chain e d ss calls fails) = StillOk p m \<Longrightarrow>
     p = d \<and>
     (\<exists>pre s post. ss = pre @ s # post \<and>
        fst (chain e d ss calls fails) = calls @ map (snd \<circ> snd) pre @ [snd (snd s)] \<and>
        m = fst (snd s) \<and> succeeded e d (snd (snd s)) \<and>
        (\<forall>x \<in> set pre. \<not> succeeded e d (snd (snd x))))"
proof (induction ss arbitrary: calls fails)
  case Nil
  then show ?case by simp
next
  case (Cons a ss)
  obtain lbl mth c where a: "a = (lbl, mth, c)" by (cases a)
  show ?case
  proof (cases "succeeded e d c")
    case True
    with Cons.prems a have "p = d" "m = mth" by auto
    moreover have "a # ss = [] @ a # ss" by simp
    ultimately show ?thesis using True a by fastforce
  next
    case False
    with Cons.prems a
    have "snd (chain e d ss (calls @ [c]) (fails @ [strategy_diag e a])) = StillOk p m"
      by simp
    from Cons.IH[OF this] obtain pre s post where
      h: "p = d" "ss = pre @ s # post"
         "fst (chain e d ss (calls @ [c]) (fails @ [strategy_diag e a])) =
            (calls @ [c]) @ map (snd \<circ> snd) pre @ [snd (snd s)]"
         "m = fst (snd s)" "succeeded e d (snd (snd s))"
         "\<forall>x \<in> set pre. \<not> succeeded e d (snd (snd x))"
      by blast
    have "a # ss = (a # pre) @ s # post" using h by simp
    moreover have "fst (chain e d (a # ss) calls fails) =
        calls @ map (snd \<circ> snd) (a # pre) @ [snd (snd s)]"
      using h(3) False a by simp
    moreover have "\<forall>x \<in> set (a # pre). \<not> succeeded e d (snd (snd x))"
      using h(6) False a by simp
    ultimately show ?thesis using h(1,4,5) by blast
  qed
qed

text \<open>
  Claim C3. Whatever the tools answer, the chain reports success only when the process
  it invoked last exited with code 0 and the destination exists afterwards (so a
  non-zero exit beside a stale file is a failure); every invocation before the last one
  failed and the invocations are an initial part of the available strategies, so the
  chain stops at the first success; and when the chain fails, every available strategy
  was invoked and the failure list holds the diagnostic of each, in order.
\<close>

theorem C3_chain_success_and_diagnostics:
  "(\<forall>p m. snd (convertStill e t s d q c) = StillOk p m \<longrightarrow>
       p = d \<and> fst (convertStill e t s d q c) \<noteq> [] \<and>
       succeeded e d (last (fst (convertStill e t s d q c))))
   \<and> (\<forall>x \<in> set (butlast (fst (convertStill e t s d q c))). \<not> succeeded e d x)
   \<and> (\<exists>rest. map (snd \<circ> snd) (strategies t s d q c) = fst (convertStill e t s d q c) @ rest)
   \<and> (\<forall>fs. snd (convertStill e t s d q c) = StillFailed fs \<longrightarrow>
         fst (convertStill e t s d q c) = map (snd \<circ> snd) (strategies t s d q c) \<and>
         (\<forall>x \<in> set (fst (convertStill e t s d q c)). \<not> succeeded e d x) \<and>
         fs = map (strategy_diag e) (strategies t s d q c))"
proof (cases "snd (convertStill e t s d q c)")
  case (StillOk p m)
  then have "snd (chain e d (strategies t s d q c) [] []) = StillOk p m"
    by (simp add: convertStill_chain)
  from chain_ok[OF this] obtain pre x post where
    h: "p = d" "strategies t s d q c = pre @ x # post"
       "fst (chain e d (strategies t s d q c) [] []) = [] @ map (snd \<circ> snd) pre @ [snd (snd x)]"
       "succeeded e d (snd (snd x))" "\<forall>y \<in> set pre. \<not> succeeded e d (snd (snd y))"
    by blast
  have f: "fst (convertStill e t s d q c) = map (snd \<circ> snd) pre @ [snd (snd x)]"
    using h(3) by (simp add: convertStill_chain)
  have "map (snd \<circ> snd) (strategies t s d q c) =
      fst (convertStill e t s d q c) @ map (snd \<circ> snd) post"
    using h(2) f by simp
  then have "\<exists>rest. map (snd \<circ> snd) (strategies t s d q c) =
      fst (convertStill e t s d q c) @ rest" ..
  moreover have "\<forall>y \<in> set (butlast (fst (convertStill e t s d q c))). \<not> succeeded e d y"
    using h(5) f by auto
  ultimately show ?thesis using StillOk h(1,4) f by simp
next
  case (StillFailed fs)
  then have "snd (chain e d (strategies t s d q c) [] []) = StillFailed fs"
    by (simp add: convertStill_chain)
  from chain_failed[OF this] have
    h: "fst (convertStill e t s d q c) = map (snd \<circ> snd) (strategies t s d q c)"
       "\<forall>x \<in> set (strategies t s d q c). \<not> succeeded e d (snd (snd x))"
       "fs = map (strategy_diag e) (strategies t s d q c)"
    by (simp_all add: convertStill_chain)
  have "\<forall>x \<in> set (fst (convertStill e t s d q c)). \<not> succeeded e d x"
    using h(1,2) by auto
  moreover then have "\<forall>x \<in> set (butlast (fst (convertStill e t s d q c))). \<not> succeeded e d x"
    by (meson in_set_butlastD)
  ultimately show ?thesis using StillFailed h(1,3) by simp
qed

lemma convertStill_env_stale:
  "convertStill env_stale still_tools ''in.heic'' ''out.jpg'' 95 6 =
     ([(''magick'', [''convert'', ''in.heic'', ''-rotate'', ''180'', ''-quality'', ''95'', ''out.jpg'']),
       (''heif-convert'', [''in.heic'', ''out.jpg''])],
      StillOk ''out.jpg'' ''heif-convert'')"
  by (simp add: convertStill_def still_tools_def no_tools_def env_stale_def exit_with_def
      imagemagick_def imagemagick_args_def imagemagickOpsForExif_def attempt_def
      String_int_95 Let_def)

lemma convertStill_env_fail:
  "convertStill env_fail still_tools ''in.heic'' ''out.jpg'' 95 6 =
     ([(''magick'', [''convert'', ''in.heic'', ''-rotate'', ''180'', ''-quality'', ''95'', ''out.jpg'']),
       (''heif-convert'', [''in.heic'', ''out.jpg'']),
       (''ffmpeg'', [''-hide_banner'', ''-y'', ''-noautorotate'', ''-i'', ''in.heic'',
                     ''-frames:v'', ''1'', ''-vf'', ''transpose=1'', ''-qscale:v'', ''3'',
                     ''out.jpg''])],
      StillFailed [ExitDiag ''ImageMagick'' (Some 1) ''boom'',
                   ExitDiag ''heif-convert'' (Some 1) ''boom'',
                   ExitDiag ''ffmpeg frame extract'' (Some 1) ''boom''])"
  by (simp add: convertStill_def still_tools_def no_tools_def env_fail_def exit_with_def
      imagemagick_def imagemagick_args_def imagemagickOpsForExif_def attempt_def
      ffmpeg_frame_args_def ffmpegFilterForExif_def ffmpeg_qscale_value diag_text_def
      trim_boom String_int_95 String_int_3 Let_def)

theorem C3_chain_witness:
  "snd (convertStill env_stale still_tools ''in.heic'' ''out.jpg'' 95 6) =
     StillOk ''out.jpg'' ''heif-convert''
   \<and> succeeded env_stale ''out.jpg''
        (last (fst (convertStill env_stale still_tools ''in.heic'' ''out.jpg'' 95 6)))
   \<and> \<not> succeeded env_stale ''out.jpg''
        (hd (fst (convertStill env_stale still_tools ''in.heic'' ''out.jpg'' 95 6)))
   \<and> snd (convertStill env_fail still_tools ''in.heic'' ''out.jpg'' 95 6) =
       StillFailed (map (strategy_diag env_fail)
                      (strategies still_tools ''in.heic'' ''out.jpg'' 95 6))
   \<and> fst (convertStill env_fail still_tools ''in.heic'' ''out.jpg'' 95 6) =
       map (snd \<circ> snd) (strategies still_tools ''in.heic'' ''out.jpg'' 95 6)"
proof -
  from C3_chain_success_and_diagnostics
         [of env_stale still_tools "''in.heic''" "''out.jpg''" 95 6]
  have a: "succeeded env_stale ''out.jpg''
             (last (fst (convertStill env_stale still_tools ''in.heic'' ''out.jpg'' 95 6)))"
    and b: "\<not> succeeded env_stale ''out.jpg''
             (hd (fst (convertStill env_stale still_tools ''in.heic'' ''out.jpg'' 95 6)))"
    by (simp_all add: convertStill_env_stale)
  from C3_chain_success_and_diagnostics
         [of env_fail still_tools "''in.heic''" "''out.jpg''" 95 6]
  have c: "snd (convertStill env_fail still_tools ''in.heic'' ''out.jpg'' 95 6) =
             StillFailed (map (strategy_diag env_fail)
                            (strategies still_tools ''in.heic'' ''out.jpg'' 95 6))"
    and d: "fst (convertStill env_fail still_tools ''in.heic'' ''out.jpg'' 95 6) =
             map (snd \<circ> snd) (strategies still_tools ''in.heic'' ''out.jpg'' 95 6)"
    by (simp_all add: convertStill_env_fail)
  have "snd (convertStill env_stale still_tools ''in.heic'' ''out.jpg'' 95 6) =
          StillOk ''out.jpg'' ''heif-convert''"
    by (simp add: convertStill_env_stale)
  with a b c d show ?thesis by blast
qed

text \<open>
  Claim C2. The claim asks that the raster converter be invoked with the operations
  mapped from the resolved orientation code. The source computes the operations from the
  constant 3 (line 186; the call with the resolved code is commented out on line 185):
  with only ImageMagick available, whatever the tools answer and for every orientation
  code, the single invocation carries \<^verbatim>\<open>-rotate 180\<close>, while the mapping itself gives
  \<^verbatim>\<open>-rotate 90\<close> for code 6 and no operation for code 1.
\<close>

theorem C2_raster_ops_from_constant:
  "fst (convertStill e (no_tools\<lparr>magick := Some ''magick''\<rparr>) ''in.heic'' ''out.jpg'' 95 c) =
     [(''magick'', [''convert'', ''in.heic'', ''-rotate'', ''180'', ''-quality'', ''95'',
                    ''out.jpg''])]
   \<and> imagemagickOpsForExif 6 = [''-rotate'', ''90'']
   \<and> imagemagickOpsForExif 1 = []"
  by (simp add: convertStill_def no_tools_def imagemagick_def imagemagick_args_def
      imagemagickOpsForExif_def attempt_def String_int_95 Let_def split: sum.splits)

text \<open>
  Claim C8. The claim asks that the requested quality be translated into ffmpeg's
  inverted scale. The source computes the scale value from the constant 95 (line 210),
  so with only ffmpeg available the invocation carries \<^verbatim>\<open>-qscale:v 3\<close> for every
  requested quality.
\<close>

theorem C8_qscale_from_constant:
  "fst (convertStill e (no_tools\<lparr>ffmpeg := Some ''ffmpeg''\<rparr>) ''in.heic'' ''out.jpg'' q 1) =
     [(''ffmpeg'', [''-hide_banner'', ''-y'', ''-noautorotate'', ''-i'', ''in.heic'',
                    ''-frames:v'', ''1'', ''-qscale:v'', ''3'', ''out.jpg''])]"
  by (simp add: convertStill_def no_tools_def imagemagick_def ffmpeg_frame_args_def
      ffmpegFilterForExif_def ffmpeg_qscale_value attempt_def String_int_3 Let_def
      split: sum.splits)

section \<open>The orientation resolver\<close>

lemma degrees_to_code_range: "1 \<le> degrees_to_code r \<and> degrees_to_code r \<le> 8"
  by (simp add: degrees_to_code_def)

lemma degrees_to_code_cases: "degrees_to_code r \<in> {1, 3, 6, 8}"
  by (simp add: degrees_to_code_def)

lemma ffprobe_orientation_rotation:
  "ffprobe t = Some fp \<Longrightarrow>
   (case ffprobe_orientation e fp file of Some c \<Rightarrow> c | None \<Rightarrow> 1) =
   (case stream_rotation e t file of None \<Rightarrow> 1 | Some rot \<Rightarrow> degrees_to_code (norm360 rot))"
  unfolding ffprobe_orientation_def stream_rotation_def degrees_to_code_def Let_def
  by (simp split: option.split)

lemma orientation_fallback:
  "(case ffprobe t of
      None \<Rightarrow> 1
    | Some fp \<Rightarrow> (case ffprobe_orientation e fp file of Some c \<Rightarrow> c | None \<Rightarrow> 1)) =
   (case stream_rotation e t file of None \<Rightarrow> 1 | Some rot \<Rightarrow> degrees_to_code (norm360 rot))"
proof (cases "ffprobe t")
  case None
  then show ?thesis by (simp add: stream_rotation_def)
next
  case (Some fp)
  then show ?thesis using ffprobe_orientation_rotation[OF Some] by simp
qed

lemma getExifOrientationCode_readings:
  "getExifOrientationCode e t file =
     (case exif_reading e t file of
        Some n \<Rightarrow>
          if 1 \<le> n \<and> n \<le> 8 then n
          else (case stream_rotation e t file of
                  None \<Rightarrow> 1
                | Some rot \<Rightarrow> degrees_to_code (norm360 rot))
      | None \<Rightarrow>
          (case stream_rotation e t file of
             None \<Rightarrow> 1
           | Some rot \<Rightarrow> degrees_to_code (norm360 rot)))"
  unfolding getExifOrientationCode_def exif_reading_def Let_def orientation_fallback
  by (auto split: option.split)

lemma rotation_code: 
  "(case r of None \<Rightarrow> 1 | Some rot \<Rightarrow> degrees_to_code (norm360 rot)) \<in> {1, 3, 6, 8}"
  using degrees_to_code_cases by (cases r) simp_all

lemma small_integer:
  fixes n :: rat
  assumes "n \<in> \<int>" "1 \<le> n" "n \<le> 8"
  shows "n \<in> {1, 2, 3, 4, 5, 6, 7, 8}"
proof -
  from assms(1) obtain k :: int where k: "n = of_int k" by (auto elim: Ints_cases)
  with assms(2,3) have "1 \<le> k" "k \<le> 8" by simp_all
  then have "k \<in> {1, 2, 3, 4, 5, 6, 7, 8}" by auto
  with k show ?thesis by auto
qed

text \<open>
  Claim C7, as the source has it. The resolver is a total function (nothing is raised)
  and its result lies between 1 and 8. It is the metadata reader's numeric tag whenever
  that is a finite number between 1 and 8: no test for an integer is made. When the
  reader gives no such number, the result is the code of the stream rotation normalised
  modulo 360 (0 to 1, 90 to 6, 180 to 3, 270 to 8, any other value to 1), and 1 when the
  prober is missing, fails or prints nothing that parses. Whenever the accepted tag is
  an integer, the result is one of the codes 1 to 8.
\<close>

theorem C7_orientation_resolver:
  "1 \<le> getExifOrientationCode e t file \<and> getExifOrientationCode e t file \<le> 8
   \<and> (\<forall>n. exif_reading e t file = Some n \<and> 1 \<le> n \<and> n \<le> 8 \<longrightarrow>
          getExifOrientationCode e t file = n)
   \<and> ((\<forall>n. exif_reading e t file = Some n \<longrightarrow> \<not> (1 \<le> n \<and> n \<le> 8)) \<longrightarrow>
          getExifOrientationCode e t file =
            (case stream_rotation e t file of
               None \<Rightarrow> 1
             | Some rot \<Rightarrow> degrees_to_code (norm360 rot)))
   \<and> ((\<forall>n. exif_reading e t file = Some n \<and> 1 \<le> n \<and> n \<le> 8 \<longrightarrow> n \<in> \<int>) \<longrightarrow>
          getExifOrientationCode e t file \<in> {1, 2, 3, 4, 5, 6, 7, 8})"
proof (cases "\<exists>n. exif_reading e t file = Some n \<and> 1 \<le> n \<and> n \<le> 8")
  case True
  then obtain n where n: "exif_reading e t file = Some n" "1 \<le> n" "n \<le> 8" by blast
  then have c: "getExifOrientationCode e t file = n"
    by (simp add: getExifOrientationCode_readings)
  have "n \<in> \<int> \<Longrightarrow> n \<in> {1, 2, 3, 4, 5, 6, 7, 8}"
    using small_integer n(2,3) by blast
  with c n show ?thesis by auto
next
  case False
  then have c: "getExifOrientationCode e t file =
      (case stream_rotation e t file of
         None \<Rightarrow> 1
       | Some rot \<Rightarrow> degrees_to_code (norm360 rot))"
    by (cases "exif_reading e t file") (auto simp add: getExifOrientationCode_readings)
  have "getExifOrientationCode e t file \<in> {1, 3, 6, 8}"
    unfolding c by (rule rotation_code)
  then have r: "1 \<le> getExifOrientationCode e t file \<and> getExifOrientationCode e t file \<le> 8"
    "getExifOrientationCode e t file \<in> {1, 2, 3, 4, 5, 6, 7, 8}"
    by auto
  show ?thesis using False c r by blast
qed

lemma Number_str_6: "Number_str (trim ''6'') = Some 6"
  by code_simp

lemma Number_str_9: "Number_str (trim ''9'') = Some 9"
  by code_simp

lemma Number_str_2_5: "Number_str (trim ''2.5'') = Some (5 / 2)"
  by code_simp

lemma Number_str_270: "Number_str ''270'' = Some 270"
  by code_simp

lemma norm360_270: "norm360 270 = 270"
  by code_simp

lemma exif_reading_env_orient:
  "exif_reading (env_orient out) orient_tools file = Number_str (trim out)"
  by (simp add: exif_reading_def env_orient_def orient_tools_def no_tools_def exit_with_def)

lemma stream_rotation_env_orient:
  "stream_rotation (env_orient out) orient_tools file = Some 270"
  by (simp add: stream_rotation_def env_orient_def orient_tools_def no_tools_def
      exit_with_def no_stream_def js_or_def Number_str_270)

theorem C7_orientation_resolver_witness:
  "exif_reading (env_orient ''6'') orient_tools ''in.heic'' = Some 6
   \<and> getExifOrientationCode (env_orient ''6'') orient_tools ''in.heic'' = 6
   \<and> exif_reading (env_orient ''9'') orient_tools ''in.heic'' = Some 9
   \<and> stream_rotation (env_orient ''9'') orient_tools ''in.heic'' = Some 270
   \<and> getExifOrientationCode (env_orient ''9'') orient_tools ''in.heic'' = 8"
proof -
  have a: "exif_reading (env_orient ''6'') orient_tools ''in.heic'' = Some 6"
    by (simp add: exif_reading_env_orient Number_str_6)
  have b: "exif_reading (env_orient ''9'') orient_tools ''in.heic'' = Some 9"
    by (simp add: exif_reading_env_orient Number_str_9)
  have c: "stream_rotation (env_orient ''9'') orient_tools ''in.heic'' = Some 270"
    by (rule stream_rotation_env_orient)
  from C7_orientation_resolver [of "env_orient ''6''" orient_tools "''in.heic''"] a
  have d: "getExifOrientationCode (env_orient ''6'') orient_tools ''in.heic'' = 6"
    by simp
  from C7_orientation_resolver [of "env_orient ''9''" orient_tools "''in.heic''"] b c
  have e: "getExifOrientationCode (env_orient ''9'') orient_tools ''in.heic'' = 8"
    by (simp add: norm360_270 degrees_to_code_def)
  from a b c d e show ?thesis by blast
qed

text \<open>
  The claim as stated fails: when the metadata reader prints \<^verbatim>\<open>2.5\<close> and exits 0, the
  resolver returns 2.5, which is none of the codes 1 to 8.
\<close>

theorem C7_fractional_tag_counterexample:
  "getExifOrientationCode (env_orient ''2.5'') orient_tools ''in.heic'' = 5 / 2
   \<and> getExifOrientationCode (env_orient ''2.5'') orient_tools ''in.heic''
       \<notin> {1, 2, 3, 4, 5, 6, 7, 8}"
proof -
  have "exif_reading (env_orient ''2.5'') orient_tools ''in.heic'' = Some (5 / 2)"
    by (simp add: exif_reading_env_orient Number_str_2_5)
  then have "getExifOrientationCode (env_orient ''2.5'') orient_tools ''in.heic'' = 5 / 2"
    by (simp add: getExifOrientationCode_readings)
  then show ?thesis by simp
qed

section \<open>The container scanner\<close>























section \<open>The candidate prober\<close>









lemma accept_json_motion: "accept_probe json_motion"
  by code_simp








section \<open>The MP4 normalizer\<close>

lemma js_rem_nonneg:
  assumes "0 \<le> a"
  shows "0 \<le> js_rem a 360 \<and> js_rem a 360 < 360"
proof -
  have q: "0 \<le> a / 360" using assms by simp
  then have t: "js_trunc (a / 360) = \<lfloor>a / 360\<rfloor>" by (simp add: js_trunc_def)
  have "of_int \<lfloor>a / 360\<rfloor> \<le> a / 360" "a / 360 < of_int \<lfloor>a / 360\<rfloor> + 1" by linarith+
  then show ?thesis unfolding js_rem_def t by linarith
qed

lemma js_rem_neg:
  assumes "a < 0"
  shows "- 360 < js_rem a 360 \<and> js_rem a 360 \<le> 0"
proof -
  have q: "a / 360 < 0" using assms by simp
  then have t: "js_trunc (a / 360) = \<lceil>a / 360\<rceil>" by (simp add: js_trunc_def)
  have "a / 360 \<le> of_int \<lceil>a / 360\<rceil>" "of_int \<lceil>a / 360\<rceil> - 1 < a / 360" by linarith+
  then show ?thesis unfolding js_rem_def t by linarith
qed

lemma js_rem_small: 
  assumes "- 360 < a" "a < 360"
  shows "js_rem a 360 = a"
proof (cases "0 \<le> a")
  case True
  then have "0 \<le> a / 360" "a / 360 < 1" using assms by simp_all
  then have "\<lfloor>a / 360\<rfloor> = 0" by linarith
  then show ?thesis using \<open>0 \<le> a / 360\<close> by (simp add: js_rem_def js_trunc_def)
next
  case False
  then have "a / 360 < 0" "- 1 < a / 360" using assms by simp_all
  then have "\<lceil>a / 360\<rceil> = 0" by linarith
  then show ?thesis using \<open>a / 360 < 0\<close> by (simp add: js_rem_def js_trunc_def)
qed

lemma js_rem_shift:
  assumes "360 \<le> a" "a < 720"
  shows "js_rem a 360 = a - 360"
proof -
  have "1 \<le> a / 360" "a / 360 < 2" using assms by simp_all
  then have "\<lfloor>a / 360\<rfloor> = 1" by linarith
  then show ?thesis using \<open>1 \<le> a / 360\<close> by (simp add: js_rem_def js_trunc_def)
qed

lemma js_rem_abs: "- 360 < js_rem r 360 \<and> js_rem r 360 < 360"
  using js_rem_nonneg[of r] js_rem_neg[of r] by (cases "0 \<le> r") auto

lemma norm360_eq:
  "norm360 r = (if 0 \<le> js_rem r 360 then js_rem r 360 else js_rem r 360 + 360)"
proof (cases "0 \<le> js_rem r 360")
  case True
  with js_rem_abs[of r] have "js_rem (js_rem r 360 + 360) 360 = js_rem r 360 + 360 - 360"
    by (intro js_rem_shift) simp_all
  with True show ?thesis by (simp add: norm360_def)
next
  case False
  with js_rem_abs[of r] have "js_rem (js_rem r 360 + 360) 360 = js_rem r 360 + 360"
    by (intro js_rem_small) simp_all
  with False show ?thesis by (simp add: norm360_def)
qed

lemma norm360_range: "0 \<le> norm360 r \<and> norm360 r < 360"
  using js_rem_abs[of r] by (auto simp: norm360_eq)
















lemma normalize_run_ok:
  "code (run env_stale ''ffmpeg'' args) = Some 0"
  by (simp add: env_stale_def exit_with_def)


section \<open>The per-file flow\<close>

lemma jpgOut_summary0: "jpgOut (summary0 f outDir) = jpgPathFor outDir (path_name f)"
  by (simp add: summary0_def)

lemma still_phase_failed:
  assumes "\<not> dryRun"
    "snd (convertStill e t f (jpgOut s) q (getExifOrientationCode e t f)) = StillFailed fs"
  shows "still_phase e t f q dryRun s = Inl (s\<lparr>errors := errors s @ [ErrStillFailed fs]\<rparr>)"
  using assms by (simp add: still_phase_def)

lemma still_phase_implausible:
  assumes "\<not> dryRun"
    "snd (convertStill e t f (jpgOut s) q (getExifOrientationCode e t f)) = StillOk p m"
    "\<not> plausibleDimensions (fst (getImageDimensions e t (jpgOut s)))
         (snd (getImageDimensions e t (jpgOut s)))"
  shows "still_phase e t f q dryRun s =
     Inl (s\<lparr>steps := steps s @ [StepStill m],
            errors := errors s @ [ErrImplausible (fst (getImageDimensions e t (jpgOut s)))
                                    (snd (getImageDimensions e t (jpgOut s)))]\<rparr>)"
  using assms by (simp add: still_phase_def Let_def)

lemma still_phase_done:
  assumes "\<not> dryRun"
    "snd (convertStill e t f (jpgOut s) q (getExifOrientationCode e t f)) = StillOk p m"
    "plausibleDimensions (fst (getImageDimensions e t (jpgOut s)))
         (snd (getImageDimensions e t (jpgOut s)))"
  shows "still_phase e t f q dryRun s =
     Inr (s\<lparr>steps := steps s @ [StepStill m, StepMetadata (copyAllMetadata e t f (jpgOut s) = MetaOk)]\<rparr>)"
  using assms by (simp add: still_phase_def Let_def)

lemma still_phase_dry:
  "dryRun \<Longrightarrow> still_phase e t f q dryRun s = Inr (s\<lparr>steps := steps s @ [StepDryRunStill]\<rparr>)"
  by (simp add: still_phase_def)

lemma motion_phase_ran:
  assumes "ffprobe t = None \<or> detectEmbeddedVideo e t f tmp \<noteq> None"
  shows "list_ex is_motion_step (steps (case motion_phase e t f tmp dryRun s of Inl x \<Rightarrow> x | Inr x \<Rightarrow> x))"
proof (cases "ffprobe t")
  case None
  then show ?thesis by (simp add: motion_phase_def)
next
  case (Some fp)
  with assms obtain r where r: "detectEmbeddedVideo e t f tmp = Some r" by auto
  show ?thesis
  proof (cases r)
    case (DetectOk p j c)
    then show ?thesis using Some r
      by (cases "snd (normalizeMp4 e t p (mp4Out s) j)") (simp_all add: motion_phase_def Let_def)
  next
    case (DetectFail x)
    then show ?thesis using Some r by (simp add: motion_phase_def)
  qed
qed

lemma motion_phase_errors:
  assumes "list_all is_mp4_error (errors s)"
  shows "list_all is_mp4_error (errors (case motion_phase e t f tmp dryRun s of Inl x \<Rightarrow> x | Inr x \<Rightarrow> x))"
proof (cases "ffprobe t")
  case None
  then show ?thesis using assms by (simp add: motion_phase_def)
next
  case (Some fp)
  show ?thesis
  proof (cases "detectEmbeddedVideo e t f tmp")
    case None
    then show ?thesis using Some assms by (simp add: motion_phase_def)
  next
    case (Some r)
    show ?thesis
    proof (cases r)
      case (DetectOk p j c)
      then show ?thesis using Some \<open>ffprobe t = Some fp\<close> assms
        by (cases "snd (normalizeMp4 e t p (mp4Out s) j)") (simp_all add: motion_phase_def Let_def)
    next
      case (DetectFail x)
      then show ?thesis using Some \<open>ffprobe t = Some fp\<close> assms by (simp add: motion_phase_def)
    qed
  qed
qed

lemma motion_phase_steps:
  "\<exists>more. steps (case motion_phase e t f tmp dryRun s of Inl x \<Rightarrow> x | Inr x \<Rightarrow> x) = steps s @ more"
proof (cases "ffprobe t")
  case None
  then show ?thesis by (simp add: motion_phase_def)
next
  case (Some fp)
  show ?thesis
  proof (cases "detectEmbeddedVideo e t f tmp")
    case None
    then show ?thesis using Some by (simp add: motion_phase_def)
  next
    case (Some r)
    show ?thesis
    proof (cases r)
      case (DetectOk p j c)
      then show ?thesis using Some \<open>ffprobe t = Some fp\<close>
        by (cases "snd (normalizeMp4 e t p (mp4Out s) j)") (simp_all add: motion_phase_def Let_def)
    next
      case (DetectFail x)
      then show ?thesis using Some \<open>ffprobe t = Some fp\<close> by (simp add: motion_phase_def)
    qed
  qed
qed

lemma motion_phase_disabled:
  "ffprobe t = None \<Longrightarrow> motion_phase e t f tmp dryRun s = Inr (s\<lparr>steps := steps s @ [StepMotionDisabled]\<rparr>)"
  by (simp add: motion_phase_def)

lemma processOne_still_failed:
  assumes "\<not> dryRun" "still_conv e t f outDir q = StillFailed fs"
  shows "processOne e t f outDir tmp q dryRun =
           (summary0 f outDir)\<lparr>errors := [ErrStillFailed fs]\<rparr>"
proof -
  have "still_phase e t f q dryRun (summary0 f outDir) =
      Inl ((summary0 f outDir)\<lparr>errors := errors (summary0 f outDir) @ [ErrStillFailed fs]\<rparr>)"
    using assms by (intro still_phase_failed) (simp_all add: still_conv_def jpgOut_summary0)
  then show ?thesis by (simp add: processOne_def summary0_def)
qed

lemma processOne_implausible:
  assumes "\<not> dryRun" "still_conv e t f outDir q = StillOk p m"
    "\<not> plausibleDimensions (fst (still_dims e t f outDir)) (snd (still_dims e t f outDir))"
  shows "processOne e t f outDir tmp q dryRun =
           (summary0 f outDir)\<lparr>steps := [StepStill m],
              errors := [ErrImplausible (fst (still_dims e t f outDir))
                                        (snd (still_dims e t f outDir))]\<rparr>"
proof -
  have "still_phase e t f q dryRun (summary0 f outDir) =
      Inl ((summary0 f outDir)\<lparr>steps := steps (summary0 f outDir) @ [StepStill m],
             errors := errors (summary0 f outDir) @
               [ErrImplausible (fst (getImageDimensions e t (jpgOut (summary0 f outDir))))
                               (snd (getImageDimensions e t (jpgOut (summary0 f outDir))))]\<rparr>)"
    using assms
    by (intro still_phase_implausible)
       (simp_all add: still_conv_def still_dims_def jpgOut_summary0)
  then show ?thesis
    by (simp add: processOne_def summary0_def still_dims_def)
qed

lemma processOne_still_done:
  assumes "\<not> dryRun" "still_conv e t f outDir q = StillOk p m"
    "plausibleDimensions (fst (still_dims e t f outDir)) (snd (still_dims e t f outDir))"
  shows "processOne e t f outDir tmp q dryRun =
           (case motion_phase e t f tmp dryRun
                   ((summary0 f outDir)\<lparr>steps :=
                      [StepStill m,
                       StepMetadata (copyAllMetadata e t f (jpgPathFor outDir (path_name f))
                                     = MetaOk)]\<rparr>) of
              Inl x \<Rightarrow> x | Inr x \<Rightarrow> x)"
proof -
  have "still_phase e t f q dryRun (summary0 f outDir) =
      Inr ((summary0 f outDir)\<lparr>steps := steps (summary0 f outDir) @
             [StepStill m,
              StepMetadata (copyAllMetadata e t f (jpgOut (summary0 f outDir)) = MetaOk)]\<rparr>)"
    using assms
    by (intro still_phase_done)
       (simp_all add: still_conv_def still_dims_def jpgOut_summary0)
  then show ?thesis
    by (simp add: processOne_def summary0_def)
qed

lemma processOne_dry:
  assumes "dryRun"
  shows "processOne e t f outDir tmp q dryRun =
           (case motion_phase e t f tmp dryRun
                   ((summary0 f outDir)\<lparr>steps := [StepDryRunStill]\<rparr>) of
              Inl x \<Rightarrow> x | Inr x \<Rightarrow> x)"
  using assms by (simp add: processOne_def still_phase_dry summary0_def)

text \<open>
  Claim C1, as the source has it. When the still path fails, because the conversion
  chain exhausts its strategies or because the validator rejects the dimensions, the
  failure is the one error of the file's summary and the \<^verbatim>\<open>throw\<close> on line 318 or 323
  leaves the \<^verbatim>\<open>try\<close> block: no step of the motion path is recorded. The motion path runs
  when the still path ran to its end or was skipped by a dry run; then, unless reading
  the source file throws, a step of the motion path is recorded.
\<close>

theorem C1_still_failure_ends_file:
  "(\<not> dryRun \<and> still_conv e t f outDir q = StillFailed fs \<longrightarrow>
      processOne e t f outDir tmp q dryRun =
        (summary0 f outDir)\<lparr>errors := [ErrStillFailed fs]\<rparr>
      \<and> \<not> list_ex is_motion_step (steps (processOne e t f outDir tmp q dryRun)))
   \<and> (\<not> dryRun \<and> still_conv e t f outDir q = StillOk p m \<and>
       \<not> plausibleDimensions (fst (still_dims e t f outDir)) (snd (still_dims e t f outDir))
       \<longrightarrow>
      processOne e t f outDir tmp q dryRun =
        (summary0 f outDir)\<lparr>steps := [StepStill m],
           errors := [ErrImplausible (fst (still_dims e t f outDir))
                                     (snd (still_dims e t f outDir))]\<rparr>
      \<and> \<not> list_ex is_motion_step (steps (processOne e t f outDir tmp q dryRun)))
   \<and> ((dryRun \<or> (still_conv e t f outDir q = StillOk p m \<and>
                   plausibleDimensions (fst (still_dims e t f outDir))
                     (snd (still_dims e t f outDir))))
       \<and> (ffprobe t = None \<or> detectEmbeddedVideo e t f tmp \<noteq> None) \<longrightarrow>
      list_ex is_motion_step (steps (processOne e t f outDir tmp q dryRun)))"
proof (intro conjI impI)
  assume a: "\<not> dryRun \<and> still_conv e t f outDir q = StillFailed fs"
  then show r: "processOne e t f outDir tmp q dryRun =
        (summary0 f outDir)\<lparr>errors := [ErrStillFailed fs]\<rparr>"
    by (simp add: processOne_still_failed)
  show "\<not> list_ex is_motion_step (steps (processOne e t f outDir tmp q dryRun))"
    unfolding r by (simp add: summary0_def)
next
  assume a: "\<not> dryRun \<and> still_conv e t f outDir q = StillOk p m \<and>
       \<not> plausibleDimensions (fst (still_dims e t f outDir)) (snd (still_dims e t f outDir))"
  then show r: "processOne e t f outDir tmp q dryRun =
        (summary0 f outDir)\<lparr>steps := [StepStill m],
           errors := [ErrImplausible (fst (still_dims e t f outDir))
                                     (snd (still_dims e t f outDir))]\<rparr>"
    by (simp add: processOne_implausible)
  show "\<not> list_ex is_motion_step (steps (processOne e t f outDir tmp q dryRun))"
    unfolding r by simp
next
  assume a: "(dryRun \<or> (still_conv e t f outDir q = StillOk p m \<and>
                   plausibleDimensions (fst (still_dims e t f outDir))
                     (snd (still_dims e t f outDir))))
       \<and> (ffprobe t = None \<or> detectEmbeddedVideo e t f tmp \<noteq> None)"
  then have d: "ffprobe t = None \<or> detectEmbeddedVideo e t f tmp \<noteq> None" by blast
  show "list_ex is_motion_step (steps (processOne e t f outDir tmp q dryRun))"
  proof (cases dryRun)
    case True
    show ?thesis unfolding processOne_dry[OF True] by (rule motion_phase_ran[OF d])
  next
    case False
    with a have b: "still_conv e t f outDir q = StillOk p m"
      "plausibleDimensions (fst (still_dims e t f outDir)) (snd (still_dims e t f outDir))"
      by blast+
    show ?thesis unfolding processOne_still_done[OF False b]
      by (rule motion_phase_ran[OF d])
  qed
qed

lemma scan_sample_buf: "scan_candidates sample_buf = [c52, c36]"
  by code_simp

lemma slice_path_c52: "slice_path ''/tmp/h'' ''/src/in.heic'' c52 = ''/tmp/h/slice_in.heic_52.bin''"
  by code_simp

lemma probe_c52_meta_fail:
  "probe_candidate env_meta_fail ''ffprobe'' ''/src/in.heic'' ''/tmp/h'' buf c52 = Some json_motion"
  by (simp add: probe_candidate_def slice_path_c52 env_meta_fail_def exit_with_def
      probe_args_def accept_json_motion)

lemma probe_c52_still_broken:
  "probe_candidate env_still_broken ''ffprobe'' ''/src/in.heic'' ''/tmp/h'' buf c52 = Some json_motion"
  by (simp add: probe_candidate_def slice_path_c52 env_still_broken_def exit_with_def
      probe_args_def accept_json_motion)

lemma ffprobe_all_tools: "ffprobe all_tools = Some ''ffprobe''"
  by (simp add: all_tools_def)

lemma detect_env_meta_fail:
  "detectEmbeddedVideo env_meta_fail all_tools ''/src/in.heic'' ''/tmp/h'' =
     Some (DetectOk ''/tmp/h/slice_in.heic_52.bin'' json_motion c52)"
proof -
  have "readFile env_meta_fail ''/src/in.heic'' = Some sample_buf"
    by (simp add: env_meta_fail_def)
  then show ?thesis
    by (simp add: detectEmbeddedVideo_def ffprobe_all_tools scan_sample_buf
        probe_c52_meta_fail slice_path_c52)
qed

lemma detect_env_still_broken:
  "detectEmbeddedVideo env_still_broken all_tools ''/src/in.heic'' ''/tmp/h'' =
     Some (DetectOk ''/tmp/h/slice_in.heic_52.bin'' json_motion c52)"
proof -
  have "readFile env_still_broken ''/src/in.heic'' = Some sample_buf"
    by (simp add: env_still_broken_def)
  then show ?thesis
    by (simp add: detectEmbeddedVideo_def ffprobe_all_tools scan_sample_buf
        probe_c52_still_broken slice_path_c52)
qed

lemma still_conv_env_still_broken:
  "still_conv env_still_broken all_tools ''/src/in.heic'' ''/out'' 95 =
     StillFailed [ExitDiag ''ImageMagick'' (Some 1) ''cannot decode'',
                  ExitDiag ''heif-convert'' (Some 1) ''cannot decode'',
                  ExitDiag ''ffmpeg frame extract'' (Some 1) ''cannot decode'']"
  by code_simp

lemma still_conv_env_thumbnail:
  "still_conv env_thumbnail all_tools ''/src/in.heic'' ''/out'' 95 =
     StillOk ''/out/in.jpg'' ''imagemagick''"
  by code_simp

lemma still_dims_env_thumbnail:
  "still_dims env_thumbnail all_tools ''/src/in.heic'' ''/out'' = (512, 512)"
  by code_simp

lemma still_conv_env_meta_fail:
  "still_conv env_meta_fail all_tools ''/src/in.heic'' ''/out'' 95 =
     StillOk ''/out/in.jpg'' ''imagemagick''"
  by code_simp

lemma still_dims_env_meta_fail:
  "still_dims env_meta_fail all_tools ''/src/in.heic'' ''/out'' = (4032, 3024)"
  by code_simp

lemma plausible_512: "\<not> plausibleDimensions 512 512"
  by (simp add: plausibleDimensions_def)

lemma plausible_4032: "plausibleDimensions 4032 3024"
  by (simp add: plausibleDimensions_def)

theorem C1_still_failure_ends_file_witness:
  "still_conv env_still_broken all_tools ''/src/in.heic'' ''/out'' 95 =
     StillFailed [ExitDiag ''ImageMagick'' (Some 1) ''cannot decode'',
                  ExitDiag ''heif-convert'' (Some 1) ''cannot decode'',
                  ExitDiag ''ffmpeg frame extract'' (Some 1) ''cannot decode'']
   \<and> processOne env_still_broken all_tools ''/src/in.heic'' ''/out'' ''/tmp/h'' 95 False =
       (summary0 ''/src/in.heic'' ''/out'')
         \<lparr>errors := [ErrStillFailed
                       [ExitDiag ''ImageMagick'' (Some 1) ''cannot decode'',
                        ExitDiag ''heif-convert'' (Some 1) ''cannot decode'',
                        ExitDiag ''ffmpeg frame extract'' (Some 1) ''cannot decode'']]\<rparr>
   \<and> still_conv env_thumbnail all_tools ''/src/in.heic'' ''/out'' 95 =
       StillOk ''/out/in.jpg'' ''imagemagick''
   \<and> processOne env_thumbnail all_tools ''/src/in.heic'' ''/out'' ''/tmp/h'' 95 False =
       (summary0 ''/src/in.heic'' ''/out'')
         \<lparr>steps := [StepStill ''imagemagick''], errors := [ErrImplausible 512 512]\<rparr>
   \<and> still_conv env_meta_fail all_tools ''/src/in.heic'' ''/out'' 95 =
       StillOk ''/out/in.jpg'' ''imagemagick''
   \<and> list_ex is_motion_step
        (steps (processOne env_meta_fail all_tools ''/src/in.heic'' ''/out'' ''/tmp/h'' 95 False))"
proof -
  note a = C1_still_failure_ends_file
             [where dryRun = False and e = env_still_broken and t = all_tools
                and f = "''/src/in.heic''" and outDir = "''/out''" and q = 95
                and tmp = "''/tmp/h''"
                and fs = "[ExitDiag ''ImageMagick'' (Some 1) ''cannot decode'',
                           ExitDiag ''heif-convert'' (Some 1) ''cannot decode'',
                           ExitDiag ''ffmpeg frame extract'' (Some 1) ''cannot decode'']",
              THEN conjunct1, rule_format, THEN conjunct1]
  note b = C1_still_failure_ends_file
             [where dryRun = False and e = env_thumbnail and t = all_tools
                and f = "''/src/in.heic''" and outDir = "''/out''" and q = 95
                and tmp = "''/tmp/h''" and p = "''/out/in.jpg''" and m = "''imagemagick''",
              THEN conjunct2, THEN conjunct1, rule_format, THEN conjunct1]
  note c = C1_still_failure_ends_file
             [where dryRun = False and e = env_meta_fail and t = all_tools
                and f = "''/src/in.heic''" and outDir = "''/out''" and q = 95
                and tmp = "''/tmp/h''" and p = "''/out/in.jpg''" and m = "''imagemagick''",
              THEN conjunct2, THEN conjunct2, rule_format]
  have a': "processOne env_still_broken all_tools ''/src/in.heic'' ''/out'' ''/tmp/h'' 95 False =
       (summary0 ''/src/in.heic'' ''/out'')
         \<lparr>errors := [ErrStillFailed
                       [ExitDiag ''ImageMagick'' (Some 1) ''cannot decode'',
                        ExitDiag ''heif-convert'' (Some 1) ''cannot decode'',
                        ExitDiag ''ffmpeg frame extract'' (Some 1) ''cannot decode'']]\<rparr>"
    by (rule a) (simp only: still_conv_env_still_broken simp_thms)
  have "processOne env_thumbnail all_tools ''/src/in.heic'' ''/out'' ''/tmp/h'' 95 False =
       (summary0 ''/src/in.heic'' ''/out'')
         \<lparr>steps := [StepStill ''imagemagick''],
            errors := [ErrImplausible
                         (fst (still_dims env_thumbnail all_tools ''/src/in.heic'' ''/out''))
                         (snd (still_dims env_thumbnail all_tools ''/src/in.heic'' ''/out''))]\<rparr>"
    by (rule b)
       (simp only: still_conv_env_thumbnail still_dims_env_thumbnail fst_conv snd_conv
          plausible_512 simp_thms)
  then have b': "processOne env_thumbnail all_tools ''/src/in.heic'' ''/out'' ''/tmp/h'' 95 False =
       (summary0 ''/src/in.heic'' ''/out'')
         \<lparr>steps := [StepStill ''imagemagick''], errors := [ErrImplausible 512 512]\<rparr>"
    by (simp only: still_dims_env_thumbnail fst_conv snd_conv)
  have c': "list_ex is_motion_step
        (steps (processOne env_meta_fail all_tools ''/src/in.heic'' ''/out'' ''/tmp/h'' 95 False))"
    by (rule c)
       (simp only: still_conv_env_meta_fail still_dims_env_meta_fail fst_conv snd_conv
          plausible_4032 detect_env_meta_fail simp_thms option.distinct not_False_eq_True)
  show ?thesis
    by (intro conjI)
       (rule a' b' c' still_conv_env_still_broken still_conv_env_thumbnail
          still_conv_env_meta_fail)+
qed

text \<open>
  The claim as stated fails: when every still converter fails, the error is recorded
  but no step of the motion path is, although the source holds a payload that the
  detection accepts.
\<close>

theorem C1_motion_skipped_counterexample:
  "steps (processOne env_still_broken all_tools ''/src/in.heic'' ''/out'' ''/tmp/h'' 95 False)
     = []
   \<and> errors (processOne env_still_broken all_tools ''/src/in.heic'' ''/out'' ''/tmp/h'' 95 False)
     = [ErrStillFailed
          [ExitDiag ''ImageMagick'' (Some 1) ''cannot decode'',
           ExitDiag ''heif-convert'' (Some 1) ''cannot decode'',
           ExitDiag ''ffmpeg frame extract'' (Some 1) ''cannot decode'']]
   \<and> detectEmbeddedVideo env_still_broken all_tools ''/src/in.heic'' ''/tmp/h'' =
       Some (DetectOk ''/tmp/h/slice_in.heic_52.bin'' json_motion c52)"
proof -
  have "processOne env_still_broken all_tools ''/src/in.heic'' ''/out'' ''/tmp/h'' 95 False =
       (summary0 ''/src/in.heic'' ''/out'')
         \<lparr>errors := [ErrStillFailed
                       [ExitDiag ''ImageMagick'' (Some 1) ''cannot decode'',
                        ExitDiag ''heif-convert'' (Some 1) ''cannot decode'',
                        ExitDiag ''ffmpeg frame extract'' (Some 1) ''cannot decode'']]\<rparr>"
    by (rule processOne_still_failed) (simp_all only: still_conv_env_still_broken simp_thms)
  then show ?thesis
    by (simp add: summary0_def detect_env_still_broken)
qed

lemma still_dims_no_exiftool:
  "exiftool t = None \<Longrightarrow> still_dims e t f outDir = (0, 0)"
  by (simp add: still_dims_def getImageDimensions_def)

lemma plausible_0: "\<not> plausibleDimensions 0 0"
  by (simp add: plausibleDimensions_def)

text \<open>
  Claim C9, as the source has it. When the metadata step is reached and returns not-ok,
  the still path is not marked failed: the step \<^verbatim>\<open>metadata: skipped/partial\<close> is recorded
  and the step adds no error, so every error of the file's summary is an MP4
  normalisation error of the motion path, and there is none when the prober is missing.
  When the metadata reader is missing, the metadata step is not reached: the validator
  has rejected the output as 0 by 0, and that is the file's one error.
\<close>

theorem C9_metadata_failure_is_a_step:
  "(\<not> dryRun \<and> still_conv e t f outDir q = StillOk p m \<and>
    plausibleDimensions (fst (still_dims e t f outDir)) (snd (still_dims e t f outDir)) \<and>
    copyAllMetadata e t f (jpgPathFor outDir (path_name f)) \<noteq> MetaOk \<longrightarrow>
      StepMetadata False \<in> set (steps (processOne e t f outDir tmp q dryRun))
      \<and> list_all is_mp4_error (errors (processOne e t f outDir tmp q dryRun))
      \<and> (ffprobe t = None \<longrightarrow> errors (processOne e t f outDir tmp q dryRun) = []))
   \<and> (\<not> dryRun \<and> exiftool t = None \<and> still_conv e t f outDir q = StillOk p m \<longrightarrow>
        processOne e t f outDir tmp q dryRun =
          (summary0 f outDir)\<lparr>steps := [StepStill m], errors := [ErrImplausible 0 0]\<rparr>)"
proof (intro conjI impI)
  assume a: "\<not> dryRun \<and> still_conv e t f outDir q = StillOk p m \<and>
    plausibleDimensions (fst (still_dims e t f outDir)) (snd (still_dims e t f outDir)) \<and>
    copyAllMetadata e t f (jpgPathFor outDir (path_name f)) \<noteq> MetaOk"
  define s1 where "s1 = (summary0 f outDir)\<lparr>steps := [StepStill m, StepMetadata False]\<rparr>"
  from a have r: "processOne e t f outDir tmp q dryRun =
      (case motion_phase e t f tmp dryRun s1 of Inl x \<Rightarrow> x | Inr x \<Rightarrow> x)"
    by (simp add: processOne_still_done s1_def)
  from motion_phase_steps[of e t f tmp dryRun s1] obtain more where
    "steps (processOne e t f outDir tmp q dryRun) = steps s1 @ more"
    unfolding r by blast
  then show "StepMetadata False \<in> set (steps (processOne e t f outDir tmp q dryRun))"
    by (simp add: s1_def)
  have "list_all is_mp4_error (errors s1)"
    by (simp add: s1_def summary0_def)
  then show "list_all is_mp4_error (errors (processOne e t f outDir tmp q dryRun))"
    unfolding r by (rule motion_phase_errors)
  assume "ffprobe t = None"
  then show "errors (processOne e t f outDir tmp q dryRun) = []"
    unfolding r by (simp add: motion_phase_disabled s1_def summary0_def)
next
  assume a: "\<not> dryRun \<and> exiftool t = None \<and> still_conv e t f outDir q = StillOk p m"
  then have d: "still_dims e t f outDir = (0, 0)"
    by (simp add: still_dims_no_exiftool)
  have "processOne e t f outDir tmp q dryRun =
          (summary0 f outDir)\<lparr>steps := [StepStill m],
             errors := [ErrImplausible (fst (still_dims e t f outDir))
                                       (snd (still_dims e t f outDir))]\<rparr>"
    using a by (intro processOne_implausible) (simp_all add: d plausible_0)
  then show "processOne e t f outDir tmp q dryRun =
          (summary0 f outDir)\<lparr>steps := [StepStill m], errors := [ErrImplausible 0 0]\<rparr>"
    by (simp add: d)
qed

lemma still_conv_meta_fail_exif_magick:
  "still_conv env_meta_fail exif_magick ''/src/in.heic'' ''/out'' 95 =
     StillOk ''/out/in.jpg'' ''imagemagick''"
  by code_simp

lemma still_dims_meta_fail_exif_magick:
  "still_dims env_meta_fail exif_magick ''/src/in.heic'' ''/out'' = (4032, 3024)"
  by code_simp

lemma jpg_path_in: "jpgPathFor ''/out'' (path_name ''/src/in.heic'') = ''/out/in.jpg''"
  by code_simp

lemma copy_meta_fail:
  "copyAllMetadata env_meta_fail exif_magick ''/src/in.heic'' ''/out/in.jpg'' =
     MetaFailed ''exiftool_failed''"
  by code_simp

lemma ffprobe_exif_magick: "ffprobe exif_magick = None"
  by (simp add: exif_magick_def no_tools_def)

lemma exiftool_still_tools: "exiftool still_tools = None"
  by (simp add: still_tools_def no_tools_def)

lemma still_conv_env_stale:
  "still_conv env_stale still_tools ''/src/in.heic'' ''/out'' 95 =
     StillOk ''/out/in.jpg'' ''heif-convert''"
  by code_simp

theorem C9_metadata_failure_is_a_step_witness:
  "copyAllMetadata env_meta_fail exif_magick ''/src/in.heic''
       (jpgPathFor ''/out'' (path_name ''/src/in.heic'')) \<noteq> MetaOk
   \<and> StepMetadata False
        \<in> set (steps (processOne env_meta_fail exif_magick ''/src/in.heic'' ''/out'' ''/tmp/h''
                         95 False))
   \<and> errors (processOne env_meta_fail exif_magick ''/src/in.heic'' ''/out'' ''/tmp/h'' 95 False)
       = []
   \<and> exiftool still_tools = None
   \<and> processOne env_stale still_tools ''/src/in.heic'' ''/out'' ''/tmp/h'' 95 False =
       (summary0 ''/src/in.heic'' ''/out'')
         \<lparr>steps := [StepStill ''heif-convert''], errors := [ErrImplausible 0 0]\<rparr>"
proof -
  note a = C9_metadata_failure_is_a_step
             [where dryRun = False and e = env_meta_fail and t = exif_magick
                and f = "''/src/in.heic''" and outDir = "''/out''" and q = 95
                and tmp = "''/tmp/h''" and p = "''/out/in.jpg''" and m = "''imagemagick''",
              THEN conjunct1, rule_format]
  note b = C9_metadata_failure_is_a_step
             [where dryRun = False and e = env_stale and t = still_tools
                and f = "''/src/in.heic''" and outDir = "''/out''" and q = 95
                and tmp = "''/tmp/h''" and p = "''/out/in.jpg''" and m = "''heif-convert''",
              THEN conjunct2, rule_format]
  have c: "copyAllMetadata env_meta_fail exif_magick ''/src/in.heic''
       (jpgPathFor ''/out'' (path_name ''/src/in.heic'')) \<noteq> MetaOk"
    by (simp only: jpg_path_in copy_meta_fail meta_result.distinct not_False_eq_True)
  have h: "\<not> False \<and> still_conv env_meta_fail exif_magick ''/src/in.heic'' ''/out'' 95
             = StillOk ''/out/in.jpg'' ''imagemagick'' \<and>
      plausibleDimensions (fst (still_dims env_meta_fail exif_magick ''/src/in.heic'' ''/out''))
        (snd (still_dims env_meta_fail exif_magick ''/src/in.heic'' ''/out'')) \<and>
      copyAllMetadata env_meta_fail exif_magick ''/src/in.heic''
        (jpgPathFor ''/out'' (path_name ''/src/in.heic'')) \<noteq> MetaOk"
    using c
    by (simp only: still_conv_meta_fail_exif_magick still_dims_meta_fail_exif_magick
        fst_conv snd_conv plausible_4032 simp_thms)
  have a1: "StepMetadata False
        \<in> set (steps (processOne env_meta_fail exif_magick ''/src/in.heic'' ''/out'' ''/tmp/h''
                         95 False))"
    by (rule a[OF h, THEN conjunct1])
  have a2: "errors (processOne env_meta_fail exif_magick ''/src/in.heic'' ''/out'' ''/tmp/h''
                      95 False) = []"
    by (rule a[OF h, THEN conjunct2, THEN conjunct2, rule_format, OF ffprobe_exif_magick])
  have b1: "processOne env_stale still_tools ''/src/in.heic'' ''/out'' ''/tmp/h'' 95 False =
       (summary0 ''/src/in.heic'' ''/out'')
         \<lparr>steps := [StepStill ''heif-convert''], errors := [ErrImplausible 0 0]\<rparr>"
    by (rule b) (simp only: exiftool_still_tools still_conv_env_stale simp_thms)
  show ?thesis
    by (intro conjI) (rule c a1 a2 b1 exiftool_still_tools)+
qed

text \<open>
  The claim as stated fails: the metadata copy exits 1 and is not-ok, and the summary of
  the file holds no error.
\<close>

theorem C9_no_error_recorded_counterexample:
  "copyAllMetadata env_meta_fail exif_magick ''/src/in.heic'' ''/out/in.jpg'' =
     MetaFailed ''exiftool_failed''
   \<and> steps (processOne env_meta_fail exif_magick ''/src/in.heic'' ''/out'' ''/tmp/h'' 95 False)
       = [StepStill ''imagemagick'', StepMetadata False, StepMotionDisabled]
   \<and> errors (processOne env_meta_fail exif_magick ''/src/in.heic'' ''/out'' ''/tmp/h'' 95 False)
       = []"
proof -
  have "processOne env_meta_fail exif_magick ''/src/in.heic'' ''/out'' ''/tmp/h'' 95 False =
      (case motion_phase env_meta_fail exif_magick ''/src/in.heic'' ''/tmp/h'' False
              ((summary0 ''/src/in.heic'' ''/out'')\<lparr>steps :=
                 [StepStill ''imagemagick'',
                  StepMetadata (copyAllMetadata env_meta_fail exif_magick ''/src/in.heic''
                                  (jpgPathFor ''/out'' (path_name ''/src/in.heic''))
                                = MetaOk)]\<rparr>) of
         Inl x \<Rightarrow> x | Inr x \<Rightarrow> x)"
    by (rule processOne_still_done)
       (simp_all only: still_conv_meta_fail_exif_magick still_dims_meta_fail_exif_magick
          fst_conv snd_conv plausible_4032 simp_thms)
  then show ?thesis
    by (simp add: motion_phase_disabled ffprobe_exif_magick jpg_path_in copy_meta_fail
        summary0_def)
qed

end
